theory Spec2Isabelle
  imports Complex_Main "HOL-Library.Log_Nat"
begin

section \<open>JavaScript values and helpers\<close>

text \<open>
  A number of a JSON text is a finite binary64 value, kept as the exact rational it
  denotes (\<open>number\<close>). What the program computes from numbers is a \<open>js_number\<close>: a finite
  value, an infinity or \<open>NaN\<close>; so is the total of a checkout request, which the
  handler coerces. The two arithmetic operations of the program, a product
  and a quotient by a hundred, round their exact result to binary64, with overflow to
  an infinity and gradual underflow (see \<open>binary64\<close> below). The sign of zero is left
  out.
  Strings are lists of 8-bit characters, except the argument of \<open>mapBlackCatStatus\<close>,
  which is a list of code points (see \<open>toUpperCase_unicode\<close> below).
\<close>

type_synonym number = rat

datatype js_number = Fin rat | PosInfinity | NegInfinity | NaN

datatype json =
    JNull
  | JBool bool
  | JNum number
  | JStr string
  | JArr "json list"
  | JObj "(string \<times> json) list"

text \<open>The error a property read can throw. (A failing \<open>JSON.parse\<close> and a rejected
  outbound call are results of the environment, see \<open>env\<close> below.)\<close>

datatype js_error = TypeError

text \<open>Truthiness of a value, of a possibly \<open>undefined\<close> value and of a string.\<close>

fun truthy :: "json \<Rightarrow> bool" where
  "truthy JNull = False"
| "truthy (JBool b) = b"
| "truthy (JNum n) = (n \<noteq> 0)"
| "truthy (JStr s) = (s \<noteq> [])"
| "truthy (JArr xs) = True"
| "truthy (JObj kvs) = True"

fun truthy_opt :: "json option \<Rightarrow> bool" where
  "truthy_opt None = False"
| "truthy_opt (Some v) = truthy v"


text \<open>\<open>v.k\<close> on a value that is neither \<open>null\<close> nor \<open>undefined\<close>: the member of an
  object, \<open>undefined\<close> (here \<open>None\<close>) otherwise. None of the keys the program reads is
  a property of a string, number, boolean or array.\<close>

fun read_prop :: "json \<Rightarrow> string \<Rightarrow> json option" where
  "read_prop (JObj kvs) k = map_of kvs k"
| "read_prop _ k = None"

text \<open>\<open>v.k\<close> where \<open>v\<close> may be \<open>null\<close> or \<open>undefined\<close>: a \<open>TypeError\<close> then.\<close>

fun get_prop :: "json option \<Rightarrow> string \<Rightarrow> js_error + json option" where
  "get_prop None k = Inl TypeError"
| "get_prop (Some JNull) k = Inl TypeError"
| "get_prop (Some v) k = Inr (read_prop v k)"

text \<open>\<open>v?.k\<close>: optional chaining never throws.\<close>

fun opt_prop :: "json option \<Rightarrow> string \<Rightarrow> json option" where
  "opt_prop None k = None"
| "opt_prop (Some v) k = read_prop v k"

text \<open>\<open>x || null\<close>, \<open>s || d\<close> on strings and \<open>n || d\<close> on numbers.\<close>

fun or_null :: "json option \<Rightarrow> json" where
  "or_null None = JNull"
| "or_null (Some v) = (if truthy v then v else JNull)"

fun or_str :: "string option \<Rightarrow> string \<Rightarrow> string" where
  "or_str None d = d"
| "or_str (Some s) d = (if s \<noteq> [] then s else d)"

fun or_num :: "number option \<Rightarrow> number \<Rightarrow> number" where
  "or_num None d = d"
| "or_num (Some n) d = (if n \<noteq> 0 then n else d)"

text \<open>\<open>n || d\<close> where \<open>d\<close> is a computed number, and \<open>x <= 0\<close> on a computed number (false
  on \<open>NaN\<close>).\<close>

fun or_num_js :: "number option \<Rightarrow> js_number \<Rightarrow> js_number" where
  "or_num_js None d = d"
| "or_num_js (Some n) d = (if n \<noteq> 0 then Fin n else d)"

fun js_le_zero :: "js_number \<Rightarrow> bool" where
  "js_le_zero (Fin q) = (q \<le> 0)"
| "js_le_zero NegInfinity = True"
| "js_le_zero PosInfinity = False"
| "js_le_zero NaN = False"

text \<open>\<open>s.toUpperCase()\<close> on a string of ASCII characters, \<open>s.replace(/\D/g, "")\<close>,
  \<open>s.substring(a, b)\<close> for \<open>a \<le> b\<close> and \<open>s.startsWith(p)\<close>.\<close>

definition upper_char :: "char \<Rightarrow> char" where
  "upper_char c =
     (case map_of (zip ''abcdefghijklmnopqrstuvwxyz'' ''ABCDEFGHIJKLMNOPQRSTUVWXYZ'') c of
        Some u \<Rightarrow> u
      | None \<Rightarrow> c)"

definition toUpperCase :: "string \<Rightarrow> string" where
  "toUpperCase s = map upper_char s"

definition is_digit :: "char \<Rightarrow> bool" where
  "is_digit c = (c \<in> set ''0123456789'')"

definition digits_only :: "string \<Rightarrow> string" where
  "digits_only s = filter is_digit s"

definition substring :: "string \<Rightarrow> nat \<Rightarrow> nat \<Rightarrow> string" where
  "substring s a b = take (b - a) (drop a s)"

definition startsWith :: "string \<Rightarrow> string \<Rightarrow> bool" where
  "startsWith s p = (take (length p) s = p)"

section \<open>Unit conversion and status mapping (lib/blackcat.ts)\<close>

text \<open>
  Rounding to binary64: round to nearest, ties to even, with a significand of 53 bits.
  \<open>exponent q\<close> is the integer \<open>e\<close> with \<open>2^e \<le> |q| < 2^(e+1)\<close>, found from the bit
  lengths of numerator and denominator. The exponent of the result is at least \<open>-1022\<close>
  (below that the spacing stays \<open>2^(-1074)\<close>: the subnormal numbers), and the result is
  the multiple of \<open>2^(e-52)\<close> nearest to \<open>q\<close>. It overflows to an infinity when that
  multiple is \<open>2^1024\<close> or more in absolute value.
\<close>

definition exponent :: "rat \<Rightarrow> int" where
  "exponent q =
     (case quotient_of \<bar>q\<bar> of
        (a, b) \<Rightarrow> let d = bitlen a - bitlen b in if 2 powi d \<le> \<bar>q\<bar> then d else d - 1)"

definition round_half_even :: "rat \<Rightarrow> int" where
  "round_half_even m =
     (let n = \<lfloor>m\<rfloor>; r = m - of_int n
      in if r < 1 / 2 then n else if 1 / 2 < r then n + 1 else if even n then n else n + 1)"

definition binary64 :: "rat \<Rightarrow> js_number" where
  "binary64 q =
     (if q = 0 then Fin 0
      else let e = max (exponent q) (- 1022);
               n = round_half_even (q / 2 powi (e - 52))
           in if 1023 < e \<or> (e = 1023 \<and> \<bar>n\<bar> = 2 ^ 53)
              then (if 0 < q then PosInfinity else NegInfinity)
              else Fin (of_int n * 2 powi (e - 52)))"

text \<open>\<open>x * 100\<close> and \<open>x / 100\<close>.\<close>

fun times_100 :: "js_number \<Rightarrow> js_number" where
  "times_100 (Fin a) = binary64 (a * 100)"
| "times_100 x = x"

fun divided_by_100 :: "js_number \<Rightarrow> js_number" where
  "divided_by_100 (Fin a) = binary64 (a / 100)"
| "divided_by_100 x = x"

text \<open>\<open>Math.round\<close>: the nearest integer, a tie going towards plus infinity; an infinity
  and \<open>NaN\<close> are returned as they are.\<close>

fun Math_round :: "js_number \<Rightarrow> js_number" where
  "Math_round (Fin x) = Fin (of_int \<lfloor>x + 1 / 2\<rfloor>)"
| "Math_round x = x"

definition toCents :: "js_number \<Rightarrow> js_number" where
  "toCents v = Math_round (times_100 v)"

definition fromCents :: "js_number \<Rightarrow> js_number" where
  "fromCents v = divided_by_100 v"

text \<open>
  \<open>status.toUpperCase()\<close> in \<open>mapBlackCatStatus\<close>, whose argument is any string: the
  string is the list of its code points, and the conversion maps each code point to
  the code points of its upper case. On ASCII that is the letter's capital; beyond
  ASCII it is the mapping of the Unicode character database, a parameter here
  (\<open>unicode_upper\<close>: the dotless i, \<open>305\<close>, goes to \<open>[73]\<close>, the letter I).
\<close>

type_synonym js_string = "nat list"

definition code_points :: "string \<Rightarrow> js_string" where
  "code_points s = map of_char s"

definition upper_code_point :: "(nat \<Rightarrow> nat list) \<Rightarrow> nat \<Rightarrow> nat list" where
  "upper_code_point unicode_upper c =
     (if c < 128 then (if 97 \<le> c \<and> c \<le> 122 then [c - 32] else [c]) else unicode_upper c)"

definition toUpperCase_unicode :: "(nat \<Rightarrow> nat list) \<Rightarrow> js_string \<Rightarrow> js_string" where
  "toUpperCase_unicode unicode_upper s = concat (map (upper_code_point unicode_upper) s)"

definition mapBlackCatStatus :: "(nat \<Rightarrow> nat list) \<Rightarrow> js_string \<Rightarrow> string" where
  "mapBlackCatStatus unicode_upper status =
     (let u = toUpperCase_unicode unicode_upper status in
      if u = code_points ''PENDING'' then ''pending''
      else if u = code_points ''PAID'' then ''paid''
      else if u = code_points ''CANCELLED'' then ''cancelled''
      else if u = code_points ''REFUNDED'' then ''refunded''
      else ''pending'')"

section \<open>Order identifiers (generateOrderId)\<close>

text \<open>\<open>n.toString(36)\<close> for a non-negative integer \<open>n\<close>.\<close>

definition digit36 :: "nat \<Rightarrow> char" where
  "digit36 d = ''0123456789abcdefghijklmnopqrstuvwxyz'' ! d"

function toString36 :: "nat \<Rightarrow> string" where
  "toString36 n = (if n < 36 then [digit36 n] else toString36 (n div 36) @ [digit36 (n mod 36)])"
  by pat_completeness auto
termination
  by (relation "measure (\<lambda>n. n)") auto

declare toString36.simps [simp del]

text \<open>
  \<open>Math.random()\<close> yields a number in \<open>[0, 1)\<close>. Its rendering \<open>toString(36)\<close> is
  \<open>"0"\<close> for zero and otherwise \<open>"0."\<close> followed by the fractional base-36 digits the
  engine prints. The random component is given by that list of digits, each below 36:
  \<open>[18]\<close> is \<open>0.5\<close>, printed \<open>"0.i"\<close>.
\<close>

definition fraction_toString36 :: "nat list \<Rightarrow> string" where
  "fraction_toString36 ds = (if ds = [] then ''0'' else ''0.'' @ map digit36 ds)"

definition generateOrderId :: "nat \<Rightarrow> nat list \<Rightarrow> string" where
  "generateOrderId now rnd =
     (let timestamp = toUpperCase (toString36 now);
          random = toUpperCase (substring (fraction_toString36 rnd) 2 6)
      in ''PED-'' @ timestamp @ ''-'' @ random)"

text \<open>The characters of an upper-cased base-36 numeral.\<close>

definition base36_upper :: "char \<Rightarrow> bool" where
  "base36_upper c = (c \<in> set ''0123456789ABCDEFGHIJKLMNOPQRSTUVWXYZ'')"

section \<open>Tracking parameters and the correlation store\<close>

record tracking_params =
  src :: json
  sck :: json
  utm_source :: json
  utm_campaign :: json
  utm_medium :: json
  utm_content :: json
  utm_term :: json

definition defaultParams :: tracking_params where
  "defaultParams =
     \<lparr>src = JNull, sck = JNull, utm_source = JNull, utm_campaign = JNull,
      utm_medium = JNull, utm_content = JNull, utm_term = JNull\<rparr>"

text \<open>The object literal \<open>{src: t.src || null, sck: t.sck || null, ...}\<close>, where \<open>get k\<close>
  reads \<open>t.k\<close>.\<close>

definition tracking_of :: "(string \<Rightarrow> json option) \<Rightarrow> tracking_params" where
  "tracking_of get =
     \<lparr>src = or_null (get ''src''), sck = or_null (get ''sck''),
      utm_source = or_null (get ''utm_source''), utm_campaign = or_null (get ''utm_campaign''),
      utm_medium = or_null (get ''utm_medium''), utm_content = or_null (get ''utm_content''),
      utm_term = or_null (get ''utm_term'')\<rparr>"

text \<open>The same literal read from a stored record.\<close>

definition tracking_of_record :: "tracking_params \<Rightarrow> tracking_params" where
  "tracking_of_record p =
     \<lparr>src = or_null (Some (src p)), sck = or_null (Some (sck p)),
      utm_source = or_null (Some (utm_source p)),
      utm_campaign = or_null (Some (utm_campaign p)),
      utm_medium = or_null (Some (utm_medium p)),
      utm_content = or_null (Some (utm_content p)),
      utm_term = or_null (Some (utm_term p))\<rparr>"

type_synonym utm_store = "string \<rightharpoonup> tracking_params"

text \<open>Modelled from the spec: \<open>lib/server-utm-store\<close> is not among the sources. The
  Correlation Store is an in-process key-value association: \<open>save(orderId, params)\<close>
  stores or overwrites the record.\<close>

definition saveUtmParams :: "string \<Rightarrow> tracking_params \<Rightarrow> utm_store \<Rightarrow> utm_store" where
  "saveUtmParams orderId params st = st(orderId \<mapsto> params)"

text \<open>Modelled from the spec: \<open>get(orderId)\<close> returns the record or the absent
  marker.\<close>

definition getUtmParams :: "string \<Rightarrow> utm_store \<Rightarrow> tracking_params option" where
  "getUtmParams orderId st = st orderId"

text \<open>Modelled from the spec: \<open>delete(orderId)\<close> removes the record, a no-op if it is
  absent.\<close>

definition deleteUtmParams :: "string \<Rightarrow> utm_store \<Rightarrow> utm_store" where
  "deleteUtmParams orderId st = st(orderId := None)"

section \<open>Gateway interfaces (lib/blackcat.ts)\<close>

record BlackCatDocument =
  doc_number :: string
  doc_type :: string

record BlackCatCustomer =
  bc_name :: string
  bc_email :: string
  bc_phone :: string
  bc_document :: BlackCatDocument

record BlackCatItem =
  it_title :: string
  it_unitPrice :: js_number
  it_quantity :: number
  it_tangible :: bool

text \<open>The address fields are copied as they come, so a field is absent when the
  request's is.\<close>

record BlackCatShipping =
  sh_name :: string
  sh_street :: "string option"
  sh_number :: "string option"
  sh_complement :: string
  sh_neighborhood :: "string option"
  sh_city :: "string option"
  sh_state :: "string option"
  sh_zipCode :: string

record BlackCatCreateSaleRequest =
  rq_amount :: js_number
  rq_currency :: string
  rq_paymentMethod :: string
  rq_items :: "BlackCatItem list"
  rq_customer :: BlackCatCustomer
  rq_shipping :: BlackCatShipping
  rq_pix_expiresInDays :: number
  rq_postbackUrl :: string
  rq_externalRef :: string
  rq_metadata :: string

record BlackCatPaymentData =
  pd_qrCode :: string
  pd_qrCodeBase64 :: string
  pd_copyPaste :: string
  pd_expiresAt :: string

record BlackCatSaleData =
  sd_transactionId :: string
  sd_status :: string
  sd_amount :: number
  sd_netAmount :: number
  sd_fees :: number
  sd_paymentData :: BlackCatPaymentData

record BlackCatSaleResponse =
  rs_success :: bool
  rs_data :: "BlackCatSaleData option"
  rs_message :: "string option"
  rs_error :: "string option"

text \<open>What \<open>fetch\<close> and \<open>response.json()\<close> do for one request: \<open>fetch\<close> throws, or a
  reply arrives with its \<open>ok\<close> flag and a body that fails to parse (with the error's
  text) or is an object of the response interface.\<close>

datatype fetch_result =
    FetchThrows string
  | FetchReply bool "string + BlackCatSaleResponse"

section \<open>Attribution orders, outbound calls and the environment\<close>

text \<open>The order sent to the attribution service, with the fields the handlers give
  it.\<close>

record UtmfyCustomer =
  uc_name :: string
  uc_email :: string
  uc_phone :: "string option"
  uc_document :: "string option"
  uc_country :: string

record UtmfyProduct =
  up_id :: string
  up_name :: string
  up_planId :: "string option"
  up_planName :: "string option"
  up_quantity :: number
  up_priceInCents :: js_number

record UtmfyCommission =
  cm_totalPriceInCents :: js_number
  cm_gatewayFeeInCents :: number
  cm_userCommissionInCents :: js_number
  cm_currency :: string

record UtmfyOrderRequest =
  uo_orderId :: string
  uo_platform :: string
  uo_paymentMethod :: string
  uo_status :: string
  uo_createdAt :: string
  uo_approvedDate :: "string option"
  uo_refundedAt :: "string option"
  uo_customer :: UtmfyCustomer
  uo_products :: "UtmfyProduct list"
  uo_trackingParameters :: tracking_params
  uo_commission :: UtmfyCommission

text \<open>An outbound call, as a test double would record it.\<close>

datatype call = GatewayCall BlackCatCreateSaleRequest | UtmfyCall UtmfyOrderRequest

text \<open>The argument of \<open>formatUtmfyDate\<close>: a timestamp string of the gateway, or a
  \<open>Date\<close> object (its epoch milliseconds).\<close>

datatype date_arg = DateString string | DateObject nat

text \<open>What a call of \<open>sendOrderToUtmfy\<close> does: it resolves (with the success flag of
  its result, which the handlers only log) or it throws.\<close>

datatype utmfy_outcome = Resolved bool | Thrown

text \<open>
  The surroundings of a handler: the clock, the random source, the environment variable
  \<open>NEXT_PUBLIC_APP_URL\<close>, the built-ins \<open>JSON.parse\<close> (\<open>None\<close> when it throws) and
  \<open>JSON.stringify\<close>, the network behind \<open>fetch\<close>, and the two functions of
  \<open>lib/utmfy\<close>, which is not among the sources: \<open>sendOrderToUtmfy\<close>, and
  \<open>formatUtmfyDate\<close>, which the spec describes as returning the formatted string or a
  fallback (so it does not throw; \<open>None\<close> is a \<open>null\<close> result).
\<close>

record env =
  date_now :: nat
  math_random :: "nat list"
  app_url :: "string option"
  json_parse :: "string \<Rightarrow> json option"
  json_stringify :: "json \<Rightarrow> string"
  fetch_create_sale :: "BlackCatCreateSaleRequest \<Rightarrow> fetch_result"
  sendOrderToUtmfy :: "UtmfyOrderRequest \<Rightarrow> utmfy_outcome"
  formatUtmfyDate :: "date_arg \<Rightarrow> string option"

text \<open>The state the handlers change: the correlation store, and the log of outbound
  calls.\<close>

record world =
  store :: utm_store
  calls :: "call list"

section \<open>Gateway client: createBlackCatSale\<close>

text \<open>\<open>createBlackCatSale\<close>: the request goes out; a thrown \<open>fetch\<close> or an unparseable
  body becomes the connection error, a reply that is not \<open>ok\<close> becomes a failure with
  the reply's message, and an \<open>ok\<close> reply is returned as it is. It never throws.\<close>

definition connection_error :: "string \<Rightarrow> BlackCatSaleResponse" where
  "connection_error e =
     \<lparr>rs_success = False, rs_data = None,
      rs_message = Some (''Erro de conex'' @ [CHR 0xC3, CHR 0xA3] @ ''o com a API''),
      rs_error = Some e\<rparr>"

definition sale_response_of :: "env \<Rightarrow> BlackCatCreateSaleRequest \<Rightarrow> BlackCatSaleResponse" where
  "sale_response_of ev request =
     (case fetch_create_sale ev request of
        FetchThrows e \<Rightarrow> connection_error e
      | FetchReply ok (Inl e) \<Rightarrow> connection_error e
      | FetchReply ok (Inr d) \<Rightarrow>
          if \<not> ok
          then \<lparr>rs_success = False, rs_data = None,
                rs_message = Some (or_str (rs_message d) ''Erro ao criar venda''),
                rs_error = rs_error d\<rparr>
          else d)"

definition createBlackCatSale ::
  "env \<Rightarrow> BlackCatCreateSaleRequest \<Rightarrow> world \<Rightarrow> BlackCatSaleResponse \<times> world" where
  "createBlackCatSale ev request w =
     (sale_response_of ev request, w\<lparr>calls := calls w @ [GatewayCall request]\<rparr>)"

section \<open>Checkout handler (POST of the create-charge route)\<close>

record customer_in =
  ci_name :: "string option"
  ci_email :: "string option"
  ci_cpf :: "string option"
  ci_phone :: "string option"

record address_in =
  ad_street :: "string option"
  ad_number :: "string option"
  ad_complement :: "string option"
  ad_neighborhood :: "string option"
  ad_city :: "string option"
  ad_state :: "string option"
  ad_cep :: "string option"

record item_in =
  ii_id :: "string option"
  ii_name :: string
  ii_price :: number
  ii_quantity :: number

record shipping_in =
  si_name :: string
  si_price :: number

text \<open>
  The total of a request is whatever JSON value the body carries. A number is given as
  the binary64 value \<open>JSON.parse\<close> reads (an infinity for a literal beyond the range, as
  \<open>1e999\<close>). Any other value (\<open>null\<close>, a boolean, a string, an array, an object) is given
  together with the outcome of the coercion to a number that \<open>total <= 0\<close> and
  \<open>total * 100\<close> apply to it: the number it reads as (\<open>NaN\<close> for \<open>"abc"\<close> and for \<open>{}\<close>, \<open>1\<close>
  for \<open>true\<close>, \<open>10\<close> for \<open>"10"\<close>, \<open>0\<close> for \<open>[]\<close>), or the \<open>TypeError\<close> the coercion throws
  (for \<open>{"valueOf": 1, "toString": 1}\<close>, whose two conversion members are not functions).
\<close>

datatype total_in = TotalNumber js_number | TotalOther json "js_error + js_number"

text \<open>The request body: every member may be missing. The tracking parameters are kept
  as the JSON value they arrive as.\<close>

record checkout_body =
  cb_customer :: "customer_in option"
  cb_address :: "address_in option"
  cb_items :: "item_in list option"
  cb_total :: "total_in option"
  cb_shipping :: "shipping_in option"
  cb_trackingParams :: "json option"

datatype pix_out = PixOut (qrcode: string) (qrCodeBase64: string) (expiresAt: string)

text \<open>A response: its HTTP status and its body, \<open>{error}\<close>, \<open>{success: true, message}\<close>
  or \<open>{success: true, orderId, transactionId, pix}\<close>.\<close>

datatype resp_body =
    ErrorBody string
  | AckBody string
  | PixBody string string pix_out

datatype response = Response (status: nat) (body: resp_body)

definition internal_error :: response where
  "internal_error = Response 500 (ErrorBody ''Erro interno ao processar pagamento'')"

text \<open>The guard \<open>!customer || !customer.name || !customer.email || !customer.cpf ||
  !customer.phone\<close>: the four fields when the guard lets the request through.\<close>

fun checked_customer :: "customer_in option \<Rightarrow> (string \<times> string \<times> string \<times> string) option" where
  "checked_customer None = None"
| "checked_customer (Some c) =
     (case (ci_name c, ci_email c, ci_cpf c, ci_phone c) of
        (Some n, Some e, Some d, Some p) \<Rightarrow>
          if n = [] \<or> e = [] \<or> d = [] \<or> p = [] then None else Some (n, e, d, p)
      | _ \<Rightarrow> None)"

text \<open>The guard \<open>!items || items.length === 0\<close>.\<close>

fun checked_items :: "item_in list option \<Rightarrow> item_in list option" where
  "checked_items None = None"
| "checked_items (Some []) = None"
| "checked_items (Some its) = Some its"

text \<open>The guard \<open>!total || total <= 0\<close>. A number is falsy when it is zero or \<open>NaN\<close>.
  The comparison runs when the total is truthy, and throws when the coercion of the
  total does (\<open>total_throws\<close>); \<open>checked_total\<close> is the number the total is read as when
  the guard lets the request through.\<close>

fun total_throws :: "total_in option \<Rightarrow> bool" where
  "total_throws None = False"
| "total_throws (Some (TotalNumber n)) = False"
| "total_throws (Some (TotalOther v (Inl e))) = truthy v"
| "total_throws (Some (TotalOther v (Inr n))) = False"

fun checked_total :: "total_in option \<Rightarrow> js_number option" where
  "checked_total None = None"
| "checked_total (Some (TotalNumber n)) =
     (if n = Fin 0 \<or> n = NaN \<or> js_le_zero n then None else Some n)"
| "checked_total (Some (TotalOther v (Inl e))) = None"
| "checked_total (Some (TotalOther v (Inr n))) =
     (if \<not> truthy v \<or> js_le_zero n then None else Some n)"

definition blackCatItems :: "item_in list \<Rightarrow> shipping_in option \<Rightarrow> BlackCatItem list" where
  "blackCatItems its shipping =
     map (\<lambda>item. \<lparr>it_title = ii_name item, it_unitPrice = toCents (Fin (ii_price item)),
                    it_quantity = ii_quantity item, it_tangible = True\<rparr>) its
     @ (case shipping of
          None \<Rightarrow> []
        | Some s \<Rightarrow>
            if si_price s > 0
            then [\<lparr>it_title = ''Frete - '' @ si_name s, it_unitPrice = toCents (Fin (si_price s)),
                   it_quantity = 1, it_tangible = False\<rparr>]
            else [])"

text \<open>The shipping block reads \<open>address.street\<close> first: a \<open>TypeError\<close> when the request
  has no address.\<close>

definition blackCatShipping :: "string \<Rightarrow> address_in option \<Rightarrow> js_error + BlackCatShipping" where
  "blackCatShipping name address =
     (case address of
        None \<Rightarrow> Inl TypeError
      | Some a \<Rightarrow>
          Inr \<lparr>sh_name = name, sh_street = ad_street a, sh_number = ad_number a,
               sh_complement = or_str (ad_complement a) [],
               sh_neighborhood = ad_neighborhood a, sh_city = ad_city a,
               sh_state = ad_state a,
               sh_zipCode = or_str (map_option digits_only (ad_cep a)) []\<rparr>)"

definition metadata_json :: "string \<Rightarrow> json option \<Rightarrow> json" where
  "metadata_json orderId trackingParams =
     JObj ((''orderId'', JStr orderId) #
           (case trackingParams of None \<Rightarrow> [] | Some t \<Rightarrow> [(''trackingParams'', t)]))"

definition blackCatRequest ::
  "env \<Rightarrow> string \<Rightarrow> string \<times> string \<times> string \<times> string \<Rightarrow> item_in list \<Rightarrow> js_number \<Rightarrow>
   shipping_in option \<Rightarrow> json option \<Rightarrow> BlackCatShipping \<Rightarrow> BlackCatCreateSaleRequest" where
  "blackCatRequest ev orderId cust its tot shipping trackingParams ship =
     (case cust of (name, email, cpf, phone) \<Rightarrow>
        \<lparr>rq_amount = toCents tot, rq_currency = ''BRL'', rq_paymentMethod = ''pix'',
         rq_items = blackCatItems its shipping,
         rq_customer =
           \<lparr>bc_name = name, bc_email = email, bc_phone = digits_only phone,
            bc_document = \<lparr>doc_number = digits_only cpf, doc_type = ''cpf''\<rparr>\<rparr>,
         rq_shipping = ship, rq_pix_expiresInDays = 1,
         rq_postbackUrl =
           or_str (app_url ev) ''https://seu-dominio.com'' @ ''/api/webhook/blackcat'',
         rq_externalRef = orderId,
         rq_metadata = json_stringify ev (metadata_json orderId trackingParams)\<rparr>)"

text \<open>\<open>if (trackingParams) saveUtmParams(orderId, {...})\<close>.\<close>

definition save_tracking :: "string \<Rightarrow> json option \<Rightarrow> world \<Rightarrow> world" where
  "save_tracking orderId trackingParams w =
     (case trackingParams of
        None \<Rightarrow> w
      | Some t \<Rightarrow>
          if truthy t
          then w\<lparr>store := saveUtmParams orderId (tracking_of (read_prop t)) (store w)\<rparr>
          else w)"

text \<open>\<open>s || null\<close> on a string.\<close>

definition str_or_null :: "string \<Rightarrow> string option" where
  "str_or_null s = (if s = [] then None else Some s)"

definition waiting_payment_order ::
  "env \<Rightarrow> string \<Rightarrow> string \<times> string \<times> string \<times> string \<Rightarrow> item_in list \<Rightarrow> js_number \<Rightarrow>
   json option \<Rightarrow> BlackCatSaleData \<Rightarrow> UtmfyOrderRequest" where
  "waiting_payment_order ev orderId cust its tot trackingParams d =
     (case cust of (name, email, cpf, phone) \<Rightarrow>
        \<lparr>uo_orderId = orderId, uo_platform = ''papelaria-site'', uo_paymentMethod = ''pix'',
         uo_status = ''waiting_payment'',
         uo_createdAt = or_str (formatUtmfyDate ev (DateObject (date_now ev))) [],
         uo_approvedDate = None, uo_refundedAt = None,
         uo_customer =
           \<lparr>uc_name = name, uc_email = email, uc_phone = str_or_null (digits_only phone),
            uc_document = str_or_null (digits_only cpf), uc_country = ''BR''\<rparr>,
         uo_products =
           map (\<lambda>item. \<lparr>up_id = or_str (ii_id item) ''product'', up_name = ii_name item,
                          up_planId = None, up_planName = None,
                          up_quantity = ii_quantity item,
                          up_priceInCents = toCents (Fin (ii_price item))\<rparr>) its,
         uo_trackingParameters = tracking_of (opt_prop trackingParams),
         uo_commission =
           \<lparr>cm_totalPriceInCents = toCents tot,
            cm_gatewayFeeInCents = or_num (Some (sd_fees d)) 0,
            cm_userCommissionInCents = or_num_js (Some (sd_netAmount d)) (toCents tot),
            cm_currency = ''BRL''\<rparr>\<rparr>)"

text \<open>A call of the attribution client: it is recorded, and resolves or throws.\<close>

definition send_order :: "env \<Rightarrow> UtmfyOrderRequest \<Rightarrow> world \<Rightarrow> utmfy_outcome \<times> world" where
  "send_order ev order w =
     (sendOrderToUtmfy ev order, w\<lparr>calls := calls w @ [UtmfyCall order]\<rparr>)"

definition pix_of :: "BlackCatPaymentData \<Rightarrow> pix_out" where
  "pix_of paymentData =
     PixOut (or_str (Some (pd_copyPaste paymentData)) (pd_qrCode paymentData))
            (pd_qrCodeBase64 paymentData) (pd_expiresAt paymentData)"

text \<open>The handler after the three guards. A throw anywhere lands in the outer
  \<open>catch\<close>: the 500 with the generic message. The inner \<open>try\<close> around the attribution
  step swallows its failure.\<close>

definition checkout ::
  "env \<Rightarrow> checkout_body \<Rightarrow> string \<times> string \<times> string \<times> string \<Rightarrow> item_in list \<Rightarrow> js_number \<Rightarrow>
   world \<Rightarrow> response \<times> world" where
  "checkout ev b cust its tot w =
     (let orderId = generateOrderId (date_now ev) (math_random ev);
          w1 = save_tracking orderId (cb_trackingParams b) w
      in case blackCatShipping (fst cust) (cb_address b) of
           Inl e \<Rightarrow> (internal_error, w1)
         | Inr ship \<Rightarrow>
             (case createBlackCatSale ev
                     (blackCatRequest ev orderId cust its tot (cb_shipping b)
                        (cb_trackingParams b) ship) w1 of
                (blackCatResponse, w2) \<Rightarrow>
                  (case (if rs_success blackCatResponse then rs_data blackCatResponse else None) of
                     None \<Rightarrow>
                       (Response 500
                          (ErrorBody (or_str (rs_message blackCatResponse)
                                        ''Erro ao criar pagamento PIX'')), w2)
                   | Some d \<Rightarrow>
                       (case send_order ev
                               (waiting_payment_order ev orderId cust its tot
                                  (cb_trackingParams b) d) w2 of
                          (utmfyResult, w3) \<Rightarrow>
                            (Response 200
                               (PixBody orderId (sd_transactionId d)
                                  (pix_of (sd_paymentData d))), w3)))))"

text \<open>The handler: \<open>None\<close> is a request whose body \<open>request.json()\<close> rejects. Every
  throw, that of the coercion of the total as well, lands in the outer \<open>catch\<close>.\<close>

definition POST_create :: "env \<Rightarrow> checkout_body option \<Rightarrow> world \<Rightarrow> response \<times> world" where
  "POST_create ev request w =
     (case request of
        None \<Rightarrow> (internal_error, w)
      | Some b \<Rightarrow>
          (case checked_customer (cb_customer b) of
             None \<Rightarrow> (Response 400 (ErrorBody ''Dados do cliente incompletos''), w)
           | Some cust \<Rightarrow>
               (case checked_items (cb_items b) of
                  None \<Rightarrow> (Response 400 (ErrorBody ''Nenhum item no pedido''), w)
                | Some its \<Rightarrow>
                    if total_throws (cb_total b) then (internal_error, w)
                    else
                      (case checked_total (cb_total b) of
                         None \<Rightarrow>
                           (Response 400
                              (ErrorBody (''Valor total inv'' @ [CHR 0xC3, CHR 0xA1] @ ''lido'')),
                            w)
                       | Some tot \<Rightarrow> checkout ev b cust its tot w))))"

section \<open>Webhook receiver (app/api/webhook/blackcat/route.ts)\<close>

record webhook_customer =
  wc_name :: string
  wc_email :: string

record BlackCatWebhookPayload =
  wp_event :: string
  wp_timestamp :: string
  wp_transactionId :: "string option"
  wp_withdrawalId :: "string option"
  wp_externalReference :: "string option"
  wp_status :: string
  wp_amount :: number
  wp_netAmount :: "number option"
  wp_fees :: "number option"
  wp_paidAt :: "string option"
  wp_reason :: "string option"
  wp_customer :: "webhook_customer option"
  wp_metadata :: "string option"

definition extractTrackingParamsFromMetadata :: "env \<Rightarrow> string option \<Rightarrow> tracking_params" where
  "extractTrackingParamsFromMetadata ev metadata =
     (case metadata of
        None \<Rightarrow> defaultParams
      | Some m \<Rightarrow>
          if m = [] then defaultParams
          else (case json_parse ev m of
                  None \<Rightarrow> defaultParams
                | Some parsed \<Rightarrow>
                    (case get_prop (Some parsed) ''trackingParams'' of
                       Inl e \<Rightarrow> defaultParams
                     | Inr t \<Rightarrow>
                         (let trackingParams =
                                (case t of
                                   None \<Rightarrow> parsed
                                 | Some v \<Rightarrow> if truthy v then v else parsed)
                          in tracking_of (read_prop trackingParams)))))"

definition getTrackingParams :: "env \<Rightarrow> string \<Rightarrow> string option \<Rightarrow> utm_store \<Rightarrow> tracking_params" where
  "getTrackingParams ev orderId metadata st =
     (case getUtmParams orderId st of
        Some serverParams \<Rightarrow> tracking_of_record serverParams
      | None \<Rightarrow> extractTrackingParamsFromMetadata ev metadata)"

definition webhook_customer_block :: "webhook_customer option \<Rightarrow> UtmfyCustomer" where
  "webhook_customer_block customer =
     \<lparr>uc_name = or_str (map_option wc_name customer) ''Cliente'',
      uc_email = or_str (map_option wc_email customer) [],
      uc_phone = None, uc_document = None, uc_country = ''BR''\<rparr>"

definition webhook_products :: "string \<Rightarrow> number \<Rightarrow> UtmfyProduct list" where
  "webhook_products orderId amount =
     [\<lparr>up_id = ''order'', up_name = ''Pedido '' @ orderId, up_planId = None,
       up_planName = None, up_quantity = 1, up_priceInCents = Fin (or_num (Some amount) 0)\<rparr>]"

text \<open>\<open>paidAt || new Date()\<close>.\<close>

definition paid_date :: "env \<Rightarrow> string option \<Rightarrow> date_arg" where
  "paid_date ev paidAt =
     (case paidAt of
        None \<Rightarrow> DateObject (date_now ev)
      | Some s \<Rightarrow> if s = [] then DateObject (date_now ev) else DateString s)"

definition paid_order ::
  "env \<Rightarrow> BlackCatWebhookPayload \<Rightarrow> string \<Rightarrow> tracking_params \<Rightarrow> UtmfyOrderRequest" where
  "paid_order ev p orderId trackingParams =
     \<lparr>uo_orderId = orderId, uo_platform = ''papelaria-site'', uo_paymentMethod = ''pix'',
      uo_status = ''paid'',
      uo_createdAt = or_str (formatUtmfyDate ev (DateObject (date_now ev))) [],
      uo_approvedDate = Some (or_str (formatUtmfyDate ev (paid_date ev (wp_paidAt p))) []),
      uo_refundedAt = None,
      uo_customer = webhook_customer_block (wp_customer p),
      uo_products = webhook_products orderId (wp_amount p),
      uo_trackingParameters = trackingParams,
      uo_commission =
        \<lparr>cm_totalPriceInCents = Fin (or_num (Some (wp_amount p)) 0),
         cm_gatewayFeeInCents = or_num (wp_fees p) 0,
         cm_userCommissionInCents =
           Fin (or_num (wp_netAmount p) (or_num (Some (wp_amount p)) 0)),
         cm_currency = ''BRL''\<rparr>\<rparr>"

definition refused_order ::
  "env \<Rightarrow> BlackCatWebhookPayload \<Rightarrow> string \<Rightarrow> tracking_params \<Rightarrow> UtmfyOrderRequest" where
  "refused_order ev p orderId trackingParams =
     \<lparr>uo_orderId = orderId, uo_platform = ''papelaria-site'', uo_paymentMethod = ''pix'',
      uo_status = ''refused'',
      uo_createdAt = or_str (formatUtmfyDate ev (DateObject (date_now ev))) [],
      uo_approvedDate = None, uo_refundedAt = None,
      uo_customer = webhook_customer_block (wp_customer p),
      uo_products = webhook_products orderId (wp_amount p),
      uo_trackingParameters = trackingParams,
      uo_commission =
        \<lparr>cm_totalPriceInCents = Fin (or_num (Some (wp_amount p)) 0),
         cm_gatewayFeeInCents = 0, cm_userCommissionInCents = Fin 0,
         cm_currency = ''BRL''\<rparr>\<rparr>"

text \<open>The \<open>try\<close> block of a terminal event: send, then delete the store entry; a throw
  of the send skips the deletion and is swallowed.\<close>

definition send_and_cleanup :: "env \<Rightarrow> UtmfyOrderRequest \<Rightarrow> string \<Rightarrow> world \<Rightarrow> world" where
  "send_and_cleanup ev order orderId w =
     (case send_order ev order w of
        (Resolved r, w') \<Rightarrow> w'\<lparr>store := deleteUtmParams orderId (store w')\<rparr>
      | (Thrown, w') \<Rightarrow> w')"

definition ack :: "string \<Rightarrow> response" where
  "ack m = Response 200 (AckBody m)"

definition resolved_orderId :: "BlackCatWebhookPayload \<Rightarrow> string" where
  "resolved_orderId p = or_str (wp_externalReference p) (or_str (wp_transactionId p) [])"

text \<open>The handler: \<open>None\<close> is a request whose body \<open>request.json()\<close> rejects; otherwise
  the body is an envelope of the interface \<open>BlackCatWebhookPayload\<close>.\<close>

definition POST_webhook ::
  "env \<Rightarrow> BlackCatWebhookPayload option \<Rightarrow> world \<Rightarrow> response \<times> world" where
  "POST_webhook ev request w =
     (case request of
        None \<Rightarrow> (Response 500 (ErrorBody ''Erro ao processar webhook''), w)
      | Some p \<Rightarrow>
          (let orderId = resolved_orderId p;
               trackingParams = getTrackingParams ev orderId (wp_metadata p) (store w)
           in if wp_event p = ''transaction.created'' then (ack ''Evento recebido'', w)
              else if wp_event p = ''transaction.paid''
              then (ack ''Pagamento processado'',
                    send_and_cleanup ev (paid_order ev p orderId trackingParams) orderId w)
              else if wp_event p = ''transaction.failed''
              then (ack ''Falha processada'',
                    send_and_cleanup ev (refused_order ev p orderId trackingParams) orderId w)
              else if startsWith (wp_event p) ''withdrawal.''
              then (ack ''Evento de saque recebido'', w)
              else (ack ''Evento recebido'', w)))"

text \<open>
  The handler on a request as it arrives. \<open>request.json()\<close> rejects, or it resolves with
  a JSON value: \<open>null\<close>, on which the destructuring of the payload throws; a value whose
  \<open>event\<close> member is missing (an object without it, and every number, string, boolean
  and array) or is not a string, on which none of the three comparisons holds and
  \<open>event.startsWith\<close> throws (\<open>undefined\<close> and \<open>null\<close> have no members, and the member
  \<open>startsWith\<close> of any other value is not a function); or an envelope, whose \<open>event\<close>
  member is a string. Every throw lands in the outer \<open>catch\<close>, which answers 500; nothing
  was sent or deleted before it.
\<close>

datatype event_value =
    EventMissing
  | EventNull
  | EventBool bool
  | EventNumber number
  | EventArray "json list"
  | EventObject "(string \<times> json) list"

datatype webhook_request =
    BodyRejected
  | NullBody
  | NoStringEvent event_value
  | Envelope BlackCatWebhookPayload

definition POST_webhook_request ::
  "env \<Rightarrow> webhook_request \<Rightarrow> world \<Rightarrow> response \<times> world" where
  "POST_webhook_request ev request w =
     (case request of
        BodyRejected \<Rightarrow> POST_webhook ev None w
      | NullBody \<Rightarrow> (Response 500 (ErrorBody ''Erro ao processar webhook''), w)
      | NoStringEvent v \<Rightarrow> (Response 500 (ErrorBody ''Erro ao processar webhook''), w)
      | Envelope p \<Rightarrow> POST_webhook ev (Some p) w)"

section \<open>Example inputs\<close>

definition example_world :: world where
  "example_world = \<lparr>store = Map.empty, calls = []\<rparr>"

definition example_customer :: customer_in where
  "example_customer =
     \<lparr>ci_name = Some ''Ana Lima'', ci_email = Some ''ana@example.com'',
      ci_cpf = Some ''123.456.789-09'', ci_phone = Some ''(11) 98888-7777''\<rparr>"

definition example_address :: address_in where
  "example_address =
     \<lparr>ad_street = Some ''Rua das Flores'', ad_number = Some ''10'', ad_complement = None,
      ad_neighborhood = Some ''Centro'', ad_city = Some ''Recife'', ad_state = Some ''PE'',
      ad_cep = Some ''50000-000''\<rparr>"

definition example_item :: item_in where
  "example_item =
     \<lparr>ii_id = Some ''caderno'', ii_name = ''Caderno'', ii_price = 199 / 10, ii_quantity = 2\<rparr>"

definition example_tracking :: json where
  "example_tracking = JObj [(''utm_source'', JStr ''fb''), (''src'', JStr '''')]"

definition example_body :: checkout_body where
  "example_body =
     \<lparr>cb_customer = Some example_customer, cb_address = Some example_address,
      cb_items = Some [example_item], cb_total = Some (TotalNumber (Fin (398 / 10))), cb_shipping = None,
      cb_trackingParams = Some example_tracking\<rparr>"

definition example_sale_data :: BlackCatSaleData where
  "example_sale_data =
     \<lparr>sd_transactionId = ''tx-1'', sd_status = ''PENDING'', sd_amount = 3980,
      sd_netAmount = 3900, sd_fees = 80,
      sd_paymentData =
        \<lparr>pd_qrCode = ''qr'', pd_qrCodeBase64 = ''cXI='', pd_copyPaste = ''000201'',
         pd_expiresAt = ''2024-10-28T00:00:00Z''\<rparr>\<rparr>"

text \<open>An environment whose gateway accepts every charge and whose attribution client
  throws, and one whose gateway refuses every charge with a message.\<close>

definition example_env :: env where
  "example_env =
     \<lparr>date_now = 1730000000000, math_random = [1, 2, 35, 10, 5, 6], app_url = None,
      json_parse = (\<lambda>s. if s = ''{}'' then Some (JObj []) else None),
      json_stringify = (\<lambda>j. ''{}''),
      fetch_create_sale =
        (\<lambda>rq. FetchReply True
           (Inr \<lparr>rs_success = True, rs_data = Some example_sale_data, rs_message = None,
                 rs_error = None\<rparr>)),
      sendOrderToUtmfy = (\<lambda>order. Thrown),
      formatUtmfyDate = (\<lambda>d. Some ''2024-10-27 03:33:20'')\<rparr>"

definition example_env_refusing :: env where
  "example_env_refusing =
     example_env\<lparr>fetch_create_sale :=
       (\<lambda>rq. FetchReply False
          (Inr \<lparr>rs_success = False, rs_data = None, rs_message = Some ''Documento recusado'',
                rs_error = None\<rparr>))\<rparr>"

text \<open>A paid event whose metadata carries a nested tracking block, an environment that
  parses that metadata and whose attribution client resolves, and a world whose store
  holds the order.\<close>

definition example_metadata :: string where
  "example_metadata =
     concat [''{'', [CHR 0x22], ''trackingParams'', [CHR 0x22], '':{'', [CHR 0x22],
             ''utm_source'', [CHR 0x22], '':'', [CHR 0x22], ''fb'', [CHR 0x22], ''}}'']"

definition example_paid_event :: BlackCatWebhookPayload where
  "example_paid_event =
     \<lparr>wp_event = ''transaction.paid'', wp_timestamp = ''2024-10-27T03:40:00Z'',
      wp_transactionId = Some ''tx-1'', wp_withdrawalId = None,
      wp_externalReference = Some ''PED-M2R1BZ7K-12ZA'', wp_status = ''PAID'',
      wp_amount = 3980, wp_netAmount = Some 3900, wp_fees = Some 80, wp_paidAt = None,
      wp_reason = None, wp_customer = None, wp_metadata = Some example_metadata\<rparr>"

definition example_env_webhook :: env where
  "example_env_webhook =
     example_env\<lparr>
       json_parse :=
         (\<lambda>s. if s = example_metadata
              then Some (JObj [(''trackingParams'', JObj [(''utm_source'', JStr ''fb'')])])
              else None),
       sendOrderToUtmfy := (\<lambda>order. Resolved True)\<rparr>"

definition example_world_saved :: world where
  "example_world_saved =
     \<lparr>store = saveUtmParams ''PED-M2R1BZ7K-12ZA'' defaultParams Map.empty, calls = []\<rparr>"


definition example_upper :: "nat \<Rightarrow> nat list" where
  "example_upper c = (if c = 305 then [73] else [c])"

section \<open>Properties of the unit conversion and the status mapping\<close>

text \<open>The rounding agrees with IEEE 754 on the literals \<open>19.9\<close> and \<open>0.1\<close> and on the
  product \<open>19.9 * 100\<close>, which is \<open>1989.9999999999998\<close>.\<close>

lemma binary64_examples:
  "binary64 (199 / 10) = Fin (2800676018271027 / 140737488355328)"
  "binary64 (1 / 10) = Fin (3602879701896397 / 36028797018963968)"
  "times_100 (binary64 (199 / 10)) = Fin (8752112557096959 / 4398046511104)"
  by code_simp+

lemma round_half_even_near: "\<bar>of_int (round_half_even m) - m\<bar> \<le> 1 / 2"
proof -
  have f: "of_int \<lfloor>m\<rfloor> \<le> m" "m < of_int \<lfloor>m\<rfloor> + 1" by linarith+
  show ?thesis
    unfolding round_half_even_def Let_def using f by (auto simp: abs_le_iff)
qed

lemma powi2_pos: "0 < (2::rat) powi e"
  by (simp add: power_int_def)

lemma bitlen_pos: "0 < a \<Longrightarrow> 0 \<le> bitlen a - 1"
proof -
  assume "0 < a"
  then have "bitlen a \<noteq> 0" by (simp add: bitlen_eq_zero_iff)
  then show ?thesis using bitlen_nonneg [of a] by linarith
qed

lemma abs_quotient:
  assumes "q \<noteq> 0" and "quotient_of \<bar>q\<bar> = (a, b)"
  shows "0 < a" "0 < b" "\<bar>q\<bar> = of_int a / of_int b"
proof -
  show b: "0 < b" using assms(2) by (rule quotient_of_denom_pos)
  show q: "\<bar>q\<bar> = of_int a / of_int b" using assms(2) by (rule quotient_of_div)
  have "0 < \<bar>q\<bar>" using assms(1) by simp
  then have "0 < (of_int a :: rat) / of_int b" using q by simp
  then show "0 < a" using b by (simp add: zero_less_divide_iff)
qed

lemma exponent_lower:
  assumes "q \<noteq> 0"
  shows "2 powi (exponent q) \<le> \<bar>q\<bar>"
proof -
  obtain a b where ab: "quotient_of \<bar>q\<bar> = (a, b)" by (cases "quotient_of \<bar>q\<bar>")
  note pos = abs_quotient [OF assms ab]
  let ?d = "bitlen a - bitlen b"
  show ?thesis
  proof (cases "2 powi ?d \<le> \<bar>q\<bar>")
    case True
    then show ?thesis by (simp add: exponent_def ab)
  next
    case False
    then have e: "exponent q = ?d - 1" by (simp add: exponent_def ab)
    have la: "(2::rat) powi (bitlen a - 1) \<le> of_int a"
    proof -
      have "(2::int) ^ nat (bitlen a - 1) \<le> a" using bitlen_bounds [OF pos(1)] by simp
      then have "(of_int ((2::int) ^ nat (bitlen a - 1)) :: rat) \<le> of_int a"
        by (simp only: of_int_le_iff)
      moreover have "0 \<le> bitlen a - 1" using pos(1) by (rule bitlen_pos)
      ultimately show ?thesis by (simp add: power_int_def)
    qed
    have lb: "(of_int b :: rat) \<le> 2 powi (bitlen b)"
    proof -
      have "b < 2 ^ nat (bitlen b)" using bitlen_bounds [OF pos(2)] by simp
      then have "(of_int b :: rat) < of_int ((2::int) ^ nat (bitlen b))"
        by (simp only: of_int_less_iff)
      then show ?thesis using bitlen_nonneg [of b] by (simp add: power_int_def)
    qed
    have "(2::rat) powi (?d - 1) = 2 powi (bitlen a - 1) / 2 powi (bitlen b)"
      by (simp add: power_int_diff)
    also have "\<dots> \<le> of_int a / 2 powi (bitlen b)"
      using la powi2_pos [of "bitlen b"] by (simp add: divide_right_mono)
    also have "\<dots> \<le> of_int a / of_int b"
      using lb pos by (simp add: frac_le)
    finally show ?thesis using e pos(3) by simp
  qed
qed

lemma exponent_upper:
  assumes "q \<noteq> 0"
  shows "\<bar>q\<bar> < 2 powi (exponent q + 1)"
proof -
  obtain a b where ab: "quotient_of \<bar>q\<bar> = (a, b)" by (cases "quotient_of \<bar>q\<bar>")
  note pos = abs_quotient [OF assms ab]
  let ?d = "bitlen a - bitlen b"
  show ?thesis
  proof (cases "2 powi ?d \<le> \<bar>q\<bar>")
    case False
    then show ?thesis by (simp add: exponent_def ab)
  next
    case True
    then have e: "exponent q = ?d" by (simp add: exponent_def ab)
    have la: "(of_int a :: rat) < 2 powi (bitlen a)"
    proof -
      have "a < 2 ^ nat (bitlen a)" using bitlen_bounds [OF pos(1)] by simp
      then have "(of_int a :: rat) < of_int ((2::int) ^ nat (bitlen a))"
        by (simp only: of_int_less_iff)
      then show ?thesis using bitlen_nonneg [of a] by (simp add: power_int_def)
    qed
    have b1: "0 \<le> bitlen b - 1" using pos(2) by (rule bitlen_pos)
    have lb: "(2::rat) powi (bitlen b - 1) \<le> of_int b"
    proof -
      have "(2::int) ^ nat (bitlen b - 1) \<le> b" using bitlen_bounds [OF pos(2)] by simp
      then have "(of_int ((2::int) ^ nat (bitlen b - 1)) :: rat) \<le> of_int b"
        by (simp only: of_int_le_iff)
      then show ?thesis using b1 by (simp add: power_int_def)
    qed
    have "of_int a / of_int b \<le> (of_int a :: rat) / 2 powi (bitlen b - 1)"
      using lb pos powi2_pos [of "bitlen b - 1"] by (simp add: frac_le)
    also have "\<dots> < 2 powi (bitlen a) / 2 powi (bitlen b - 1)"
      using la powi2_pos [of "bitlen b - 1"] by (simp add: divide_strict_right_mono)
    also have "\<dots> = 2 powi (?d + 1)"
      by (simp add: power_int_diff power_int_add)
    finally show ?thesis using e pos(3) by simp
  qed
qed

lemma powi2_mono: "a \<le> b \<Longrightarrow> (2::rat) powi a \<le> 2 powi b"
  by (rule power_int_increasing) simp_all

lemma exponent_le:
  assumes "q \<noteq> 0" and "\<bar>q\<bar> < 2 powi b"
  shows "exponent q < b"
proof (rule ccontr)
  assume "\<not> exponent q < b"
  then have "(2::rat) powi b \<le> 2 powi (exponent q)" by (simp add: powi2_mono)
  then show False using exponent_lower [OF assms(1)] assms(2) by linarith
qed

lemma exponent_ge:
  assumes "q \<noteq> 0" and "2 powi b \<le> \<bar>q\<bar>"
  shows "b \<le> exponent q"
proof (rule ccontr)
  assume "\<not> b \<le> exponent q"
  then have "(2::rat) powi (exponent q + 1) \<le> 2 powi b" by (simp add: powi2_mono)
  then show False using exponent_upper [OF assms(1)] assms(2) by linarith
qed

lemma binary64_overflow:
  assumes "2 ^ 1024 \<le> q"
  shows "binary64 q = PosInfinity"
proof -
  have q: "q \<noteq> 0" "0 < q" using assms by (auto intro: less_le_trans [of 0 "2 ^ 1024"])
  have "(2::rat) powi 1024 \<le> \<bar>q\<bar>" using assms q by simp
  then have "1024 \<le> exponent q" by (rule exponent_ge [OF q(1)])
  then show ?thesis using q by (simp add: binary64_def Let_def)
qed

lemma binary64_finite:
  assumes "\<bar>q\<bar> \<le> 2 ^ 1024 - 2 ^ 971"
  shows "\<exists>r. binary64 q = Fin r \<and> \<bar>r - q\<bar> \<le> \<bar>q\<bar> / 2 ^ 53 + 1 / 2 ^ 1075"
proof (cases "q = 0")
  case True
  then show ?thesis by (simp add: binary64_def)
next
  case False
  let ?e = "max (exponent q) (- 1022)"
  let ?u = "(2::rat) powi (?e - 52)"
  let ?n = "round_half_even (q / ?u)"
  have "\<bar>q\<bar> < 2 powi 1024" using assms by simp
  then have e0: "exponent q < 1024" by (rule exponent_le [OF False])
  then have e: "?e \<le> 1023" by simp
  have u: "0 < ?u" by (rule powi2_pos)
  have near: "\<bar>of_int ?n - q / ?u\<bar> \<le> 1 / 2" by (rule round_half_even_near)
  have n: "\<bar>?n\<bar> \<noteq> 2 ^ 53" if "?e = 1023"
  proof -
    have "\<bar>q / ?u\<bar> = \<bar>q\<bar> / 2 ^ 971" using that by (simp add: abs_divide)
    also have "\<dots> \<le> (2 ^ 1024 - 2 ^ 971) / 2 ^ 971" using assms by (simp add: divide_right_mono)
    also have "\<dots> = 2 ^ 53 - 1" by simp
    finally have "\<bar>q / ?u\<bar> \<le> 2 ^ 53 - 1" .
    then have "\<bar>of_int ?n :: rat\<bar> < 2 ^ 53" using near by linarith
    then have "(of_int \<bar>?n\<bar> :: rat) < of_int (2 ^ 53)" by simp
    then have "\<bar>?n\<bar> < 2 ^ 53" by (simp only: of_int_less_iff)
    then show ?thesis by simp
  qed
  have c: "\<not> (1023 < ?e \<or> (?e = 1023 \<and> \<bar>?n\<bar> = 2 ^ 53))" using e n by linarith
  have b: "binary64 q = Fin (of_int ?n * ?u)"
    unfolding binary64_def Let_def using False c by (simp only: if_False)
  have "of_int ?n * ?u - q = (of_int ?n - q / ?u) * ?u"
    using u by (simp add: field_simps)
  then have "\<bar>of_int ?n * ?u - q\<bar> = \<bar>of_int ?n - q / ?u\<bar> * ?u"
    using u by (simp add: abs_mult)
  also have "\<dots> \<le> 1 / 2 * ?u"
    using near u by (simp add: mult_right_mono)
  also have "\<dots> = 2 powi ?e / 2 ^ 53"
    by (simp add: power_int_diff)
  also have "\<dots> \<le> \<bar>q\<bar> / 2 ^ 53 + 1 / 2 ^ 1075"
  proof (cases "- 1022 \<le> exponent q")
    case True
    then have "?e = exponent q" by simp
    then have "(2::rat) powi ?e / 2 ^ 53 \<le> \<bar>q\<bar> / 2 ^ 53"
      using exponent_lower [OF False] by (simp add: divide_right_mono)
    then show ?thesis by (simp add: add_increasing2)
  next
    case False
    then have "?e = - 1022" by simp
    then have "(2::rat) powi ?e / 2 ^ 53 = 1 / 2 ^ 1075"
      by (simp add: power_int_minus_divide flip: power_add)
    then show ?thesis by simp
  qed
  finally show ?thesis using b by blast
qed

lemma Math_round_unique:
  assumes "of_int k - 1 / 2 \<le> z" and "z < of_int k + 1 / 2"
  shows "Math_round (Fin z) = Fin (of_int k)"
proof -
  have "\<lfloor>z + 1 / 2\<rfloor> = k"
    by (rule floor_unique) (use assms in linarith)+
  then show ?thesis by simp
qed

lemma toCents_finite:
  assumes "\<bar>x\<bar> \<le> 2 ^ 1016"
  shows "\<exists>n::int. toCents (Fin x) = Fin (of_int n)
            \<and> \<bar>of_int n - x * 100\<bar> \<le> 1 / 2 + \<bar>x * 100\<bar> / 2 ^ 53 + 1 / 2 ^ 1075"
proof -
  have "\<bar>x * 100\<bar> \<le> 2 ^ 1016 * 100" using assms by (simp add: abs_mult)
  also have "\<dots> \<le> (2 ^ 1024 - 2 ^ 971 :: rat)" by simp
  finally obtain r where r: "binary64 (x * 100) = Fin r"
      "\<bar>r - x * 100\<bar> \<le> \<bar>x * 100\<bar> / 2 ^ 53 + 1 / 2 ^ 1075"
    using binary64_finite by blast
  have "\<bar>of_int \<lfloor>r + 1 / 2\<rfloor> - r\<bar> \<le> 1 / 2" by linarith
  then have "\<bar>of_int \<lfloor>r + 1 / 2\<rfloor> - x * 100\<bar> \<le> 1 / 2 + \<bar>x * 100\<bar> / 2 ^ 53 + 1 / 2 ^ 1075"
    using r(2) by linarith
  moreover have "toCents (Fin x) = Fin (of_int \<lfloor>r + 1 / 2\<rfloor>)"
    by (simp add: toCents_def r(1))
  ultimately show ?thesis by blast
qed

lemma toCents_of_cents:
  assumes "\<bar>k\<bar> \<le> 2 ^ 50"
  shows "toCents (binary64 (of_int k / 100)) = Fin (of_int k)"
proof -
  let ?K = "of_int k :: rat"
  have K: "\<bar>?K\<bar> \<le> 2 ^ 50"
  proof -
    have "(of_int \<bar>k\<bar> :: rat) \<le> of_int (2 ^ 50)" using assms by (simp only: of_int_le_iff)
    then show ?thesis by simp
  qed
  have "\<bar>?K / 100\<bar> \<le> 2 ^ 50" using K by simp
  also have "\<dots> \<le> (2 ^ 1024 - 2 ^ 971 :: rat)" by simp
  finally obtain x where x: "binary64 (?K / 100) = Fin x"
      "\<bar>x - ?K / 100\<bar> \<le> \<bar>?K / 100\<bar> / 2 ^ 53 + 1 / 2 ^ 1075"
    using binary64_finite by blast
  let ?y = "x * 100"
  have y: "\<bar>?y - ?K\<bar> \<le> \<bar>?K\<bar> / 2 ^ 53 + 100 / 2 ^ 1075"
    using x(2) by (simp add: abs_le_iff field_simps)
  then have "\<bar>?y\<bar> \<le> \<bar>?K\<bar> + \<bar>?K\<bar> / 2 ^ 53 + 100 / 2 ^ 1075" by linarith
  also have "\<dots> \<le> 2 * 2 ^ 50 + 1" using K by simp
  finally have y2: "\<bar>?y\<bar> \<le> 2 * 2 ^ 50 + 1" .
  also have "\<dots> \<le> (2 ^ 1024 - 2 ^ 971 :: rat)" by simp
  finally obtain z where z: "binary64 ?y = Fin z"
      "\<bar>z - ?y\<bar> \<le> \<bar>?y\<bar> / 2 ^ 53 + 1 / 2 ^ 1075"
    using binary64_finite by blast
  have "\<bar>?y\<bar> / 2 ^ 53 \<le> (2 * 2 ^ 50 + 1) / 2 ^ 53" using y2 by (simp add: divide_right_mono)
  then have "\<bar>z - ?y\<bar> \<le> (2 * 2 ^ 50 + 1) / 2 ^ 53 + 1 / 2 ^ 1075" using z(2) by linarith
  moreover have "\<bar>?K\<bar> / 2 ^ 53 \<le> 2 ^ 50 / 2 ^ 53" using K by (simp add: divide_right_mono)
  ultimately have "\<bar>z - ?K\<bar> \<le> (2 * 2 ^ 50 + 1) / 2 ^ 53 + 1 / 2 ^ 1075 + 2 ^ 50 / 2 ^ 53 + 100 / 2 ^ 1075"
    using y by linarith
  also have "\<dots> < 1 / 2" by simp
  finally have "\<bar>z - ?K\<bar> < 1 / 2" .
  then have "?K - 1 / 2 \<le> z" "z < ?K + 1 / 2" by linarith+
  then have "Math_round (Fin z) = Fin ?K" by (rule Math_round_unique)
  then show ?thesis by (simp add: toCents_def x(1) z(1))
qed

lemma fromCents_toCents_finite:
  assumes "\<bar>x\<bar> \<le> 2 ^ 1016"
  shows "\<exists>y. fromCents (toCents (Fin x)) = Fin y \<and> \<bar>y - x\<bar> \<le> 1 / 200 + (\<bar>x\<bar> + 1) / 2 ^ 51"
proof -
  obtain n :: int where n: "toCents (Fin x) = Fin (of_int n)"
      "\<bar>of_int n - x * 100\<bar> \<le> 1 / 2 + \<bar>x * 100\<bar> / 2 ^ 53 + 1 / 2 ^ 1075"
    using toCents_finite [OF assms] by blast
  let ?c = "of_int n :: rat"
  have c1: "\<bar>?c / 100 - x\<bar> \<le> 1 / 200 + \<bar>x\<bar> / 2 ^ 53 + 1 / (100 * 2 ^ 1075)"
    using n(2) by (simp add: abs_le_iff field_simps abs_mult)
  then have "\<bar>?c / 100\<bar> \<le> \<bar>x\<bar> + (1 / 200 + \<bar>x\<bar> / 2 ^ 53 + 1 / (100 * 2 ^ 1075))" by linarith
  also have "\<dots> \<le> 2 * \<bar>x\<bar> + 1" by simp
  finally have c2: "\<bar>?c / 100\<bar> \<le> 2 * \<bar>x\<bar> + 1" .
  also have "\<dots> \<le> 2 * 2 ^ 1016 + 1" using assms by simp
  also have "\<dots> \<le> (2 ^ 1024 - 2 ^ 971 :: rat)" by simp
  finally obtain y where y: "binary64 (?c / 100) = Fin y"
      "\<bar>y - ?c / 100\<bar> \<le> \<bar>?c / 100\<bar> / 2 ^ 53 + 1 / 2 ^ 1075"
    using binary64_finite by blast
  have "\<bar>?c / 100\<bar> / 2 ^ 53 \<le> (2 * \<bar>x\<bar> + 1) / 2 ^ 53" using c2 by (simp add: divide_right_mono)
  then have "\<bar>y - x\<bar> \<le> 1 / 200 + \<bar>x\<bar> / 2 ^ 53 + 1 / (100 * 2 ^ 1075)
      + (2 * \<bar>x\<bar> + 1) / 2 ^ 53 + 1 / 2 ^ 1075"
    using c1 y(2) by linarith
  also have "\<dots> \<le> 1 / 200 + (\<bar>x\<bar> + 1) / 2 ^ 51" by (simp add: field_simps)
  finally have "\<bar>y - x\<bar> \<le> 1 / 200 + (\<bar>x\<bar> + 1) / 2 ^ 51" .
  moreover have "fromCents (toCents (Fin x)) = Fin y"
    by (simp add: fromCents_def n(1) y(1))
  ultimately show ?thesis by blast
qed

lemma round_half_even_unique:
  assumes "\<bar>m - of_int n\<bar> < 1 / 2"
  shows "round_half_even m = n"
proof -
  have "\<bar>of_int (round_half_even m) - m\<bar> \<le> 1 / 2" by (rule round_half_even_near)
  then have "\<bar>(of_int (round_half_even m) :: rat) - of_int n\<bar> < 1" using assms by linarith
  then have "\<bar>(of_int (round_half_even m - n) :: rat)\<bar> < 1" by simp
  then have "\<bar>round_half_even m - n\<bar> < 1"
    by (metis of_int_abs of_int_less_1_iff)
  then show ?thesis by linarith
qed

lemma binary64_value:
  assumes "q \<noteq> 0" and "2 powi e \<le> \<bar>q\<bar>" and "\<bar>q\<bar> < 2 powi (e + 1)"
    and "- 1022 \<le> e" and "e \<le> 1023"
    and "\<bar>q / 2 powi (e - 52) - of_int n\<bar> < 1 / 2" and "\<bar>n\<bar> < 2 ^ 53"
  shows "binary64 q = Fin (of_int n * 2 powi (e - 52))"
proof -
  have "e \<le> exponent q" using assms(1,2) by (rule exponent_ge)
  moreover have "exponent q < e + 1" using assms(1,3) by (rule exponent_le)
  ultimately have e: "exponent q = e" by linarith
  have m: "max e (- 1022) = e" using assms(4) by simp
  have r: "round_half_even (q / 2 powi (e - 52)) = n"
    using assms(6) by (rule round_half_even_unique)
  have c: "\<not> (1023 < e \<or> (e = 1023 \<and> \<bar>n\<bar> = 2 ^ 53))" using assms(5,7) by simp
  show ?thesis
    unfolding binary64_def Let_def e m r using assms(1) c by (simp only: if_False)
qed

text \<open>
  C5, as the claim states it, fails: the amount \<open>1e308\<close>, the binary64 value
  \<open>5010420900022432 * 2^971\<close>, is a whole number of cents; its product with a hundred
  overflows, so \<open>toCents\<close> gives \<open>Infinity\<close> and \<open>fromCents\<close> of that is \<open>Infinity\<close>, which
  is not the amount to within rounding.
\<close>

theorem toCents_overflows:
  "binary64 (10 ^ 308) = Fin (5010420900022432 * 2 ^ 971)
   \<and> toCents (Fin (5010420900022432 * 2 ^ 971)) = PosInfinity
   \<and> fromCents (toCents (Fin (5010420900022432 * 2 ^ 971))) = PosInfinity"
proof -
  have a: "binary64 (10 ^ 308) = Fin (5010420900022432 * 2 ^ 971)"
    using binary64_value [of "10 ^ 308" 1023 5010420900022432] by simp
  have t: "toCents (Fin (5010420900022432 * 2 ^ 971)) = PosInfinity"
    using binary64_overflow [of "5010420900022432 * 2 ^ 971 * 100"] by (simp add: toCents_def)
  have "fromCents (toCents (Fin (5010420900022432 * 2 ^ 971))) = PosInfinity"
    unfolding t fromCents_def by simp
  then show ?thesis using a t by (simp only: simp_thms)
qed

text \<open>
  C5, amended. \<open>toCents\<close> is \<open>Math.round\<close> of the product with a hundred and \<open>fromCents\<close>
  is the quotient by a hundred. On an amount of at most \<open>2^1016\<close> in absolute value
  \<open>toCents\<close> is an integer, at most a half and the rounding of the product away from a
  hundred times the amount, and converting to cents and back changes the amount by at
  most half a cent and the rounding of the two operations. On an amount of a whole
  number of cents (the binary64 value of \<open>k / 100\<close>, for \<open>k\<close> up to \<open>2^50\<close> in absolute
  value) \<open>toCents\<close> gives \<open>k\<close> and \<open>fromCents\<close> gives the amount back exactly. In particular
  \<open>toCents(19.9)\<close> is \<open>1990\<close>.
\<close>

theorem toCents_fromCents_inverse:
  "toCents v = Math_round (times_100 v)
   \<and> fromCents c = divided_by_100 c
   \<and> (\<bar>x\<bar> \<le> 2 ^ 1016 \<longrightarrow>
         (\<exists>n::int. toCents (Fin x) = Fin (of_int n)
             \<and> \<bar>of_int n - x * 100\<bar> \<le> 1 / 2 + \<bar>x * 100\<bar> / 2 ^ 53 + 1 / 2 ^ 1075)
         \<and> (\<exists>y. fromCents (toCents (Fin x)) = Fin y
             \<and> \<bar>y - x\<bar> \<le> 1 / 200 + (\<bar>x\<bar> + 1) / 2 ^ 51))
   \<and> (\<bar>k\<bar> \<le> 2 ^ 50 \<longrightarrow>
         toCents (binary64 (of_int k / 100)) = Fin (of_int k)
         \<and> fromCents (toCents (binary64 (of_int k / 100))) = binary64 (of_int k / 100))
   \<and> toCents (binary64 (199 / 10)) = Fin 1990"
proof -
  have a: "\<bar>x\<bar> \<le> 2 ^ 1016 \<longrightarrow>
         (\<exists>n::int. toCents (Fin x) = Fin (of_int n)
             \<and> \<bar>of_int n - x * 100\<bar> \<le> 1 / 2 + \<bar>x * 100\<bar> / 2 ^ 53 + 1 / 2 ^ 1075)
         \<and> (\<exists>y. fromCents (toCents (Fin x)) = Fin y
             \<and> \<bar>y - x\<bar> \<le> 1 / 200 + (\<bar>x\<bar> + 1) / 2 ^ 51)"
    using toCents_finite [of x] fromCents_toCents_finite [of x] by blast
  have b: "\<bar>k\<bar> \<le> 2 ^ 50 \<longrightarrow>
         toCents (binary64 (of_int k / 100)) = Fin (of_int k)
         \<and> fromCents (toCents (binary64 (of_int k / 100))) = binary64 (of_int k / 100)"
    by (simp add: toCents_of_cents fromCents_def)
  have c: "toCents (binary64 (199 / 10)) = Fin 1990"
    using toCents_of_cents [of 1990] by simp
  have d: "toCents v = Math_round (times_100 v)" "fromCents c = divided_by_100 c"
    by (simp_all add: toCents_def fromCents_def)
  show ?thesis using a b c d by (simp only: simp_thms)
qed

theorem toCents_fromCents_inverse_witness:
  "\<bar>1990 :: int\<bar> \<le> 2 ^ 50
   \<and> toCents (binary64 (1990 / 100)) = Fin 1990
   \<and> fromCents (toCents (binary64 (1990 / 100))) = binary64 (1990 / 100)
   \<and> \<bar>199 / 10 :: rat\<bar> \<le> 2 ^ 1016
   \<and> (\<exists>n::int. toCents (Fin (199 / 10)) = Fin (of_int n))"
proof -
  have h: "\<bar>1990 :: int\<bar> \<le> 2 ^ 50" "\<bar>199 / 10 :: rat\<bar> \<le> 2 ^ 1016" by simp_all
  note T = toCents_fromCents_inverse [of "Fin 0" "Fin 0" "199 / 10" 1990]
  have k: "toCents (binary64 (of_int 1990 / 100)) = Fin (of_int 1990)
         \<and> fromCents (toCents (binary64 (of_int 1990 / 100))) = binary64 (of_int 1990 / 100)"
    using T h(1) by blast
  have k1: "toCents (binary64 (1990 / 100)) = Fin 1990"
    using conjunct1 [OF k] by simp
  have k2: "fromCents (toCents (binary64 (1990 / 100))) = binary64 (1990 / 100)"
    using conjunct2 [OF k] by simp
  have e: "\<exists>n::int. toCents (Fin (199 / 10)) = Fin (of_int n)"
    using T h(2) by blast
  show ?thesis
    by (intro conjI) (rule h k1 k2 e)+
qed

lemma code_points_examples:
  "code_points ''PENDING'' = [80, 69, 78, 68, 73, 78, 71]"
  "code_points ''PAID'' = [80, 65, 73, 68]"
  "code_points ''CANCELLED'' = [67, 65, 78, 67, 69, 76, 76, 69, 68]"
  "code_points ''REFUNDED'' = [82, 69, 70, 85, 78, 68, 69, 68]"
  "code_points ''paid'' = [112, 97, 105, 100]"
  "code_points ''Paid'' = [80, 97, 105, 100]"
  "code_points ''bogus'' = [98, 111, 103, 117, 115]"
  by (simp_all add: code_points_def)

text \<open>
  C8. \<open>mapBlackCatStatus\<close> returns one of the four internal statuses on every string,
  whatever the upper cases of the characters beyond ASCII are. It depends on its
  argument only through the upper-cased string: \<open>PENDING\<close> gives \<open>pending\<close>, \<open>PAID\<close> gives
  \<open>paid\<close>, \<open>CANCELLED\<close> gives \<open>cancelled\<close>, \<open>REFUNDED\<close> gives \<open>refunded\<close>, and everything else
  gives \<open>pending\<close>. In particular \<open>paid\<close>, \<open>PAID\<close> and \<open>Paid\<close> give \<open>paid\<close>, and \<open>bogus\<close> gives
  \<open>pending\<close>; and \<open>paid\<close> written with a dotless i gives \<open>paid\<close>, since the upper case of
  the dotless i is I.
\<close>

theorem mapBlackCatStatus_total_case_insensitive:
  "mapBlackCatStatus up s \<in> {''pending'', ''paid'', ''cancelled'', ''refunded''}
   \<and> (toUpperCase_unicode up s = code_points ''PENDING'' \<longrightarrow> mapBlackCatStatus up s = ''pending'')
   \<and> (toUpperCase_unicode up s = code_points ''PAID'' \<longrightarrow> mapBlackCatStatus up s = ''paid'')
   \<and> (toUpperCase_unicode up s = code_points ''CANCELLED''
        \<longrightarrow> mapBlackCatStatus up s = ''cancelled'')
   \<and> (toUpperCase_unicode up s = code_points ''REFUNDED''
        \<longrightarrow> mapBlackCatStatus up s = ''refunded'')
   \<and> (toUpperCase_unicode up s \<notin> {code_points ''PENDING'', code_points ''PAID'',
          code_points ''CANCELLED'', code_points ''REFUNDED''}
        \<longrightarrow> mapBlackCatStatus up s = ''pending'')
   \<and> (toUpperCase_unicode up s = toUpperCase_unicode up t
        \<longrightarrow> mapBlackCatStatus up s = mapBlackCatStatus up t)
   \<and> mapBlackCatStatus up (code_points ''paid'') = ''paid''
   \<and> mapBlackCatStatus up (code_points ''PAID'') = ''paid''
   \<and> mapBlackCatStatus up (code_points ''Paid'') = ''paid''
   \<and> mapBlackCatStatus up (code_points ''bogus'') = ''pending''
   \<and> (up 305 = [73] \<longrightarrow> mapBlackCatStatus up [112, 97, 305, 100] = ''paid'')"
  by (simp add: mapBlackCatStatus_def Let_def toUpperCase_unicode_def upper_code_point_def
      code_points_examples)

theorem mapBlackCatStatus_witness:
  "toUpperCase_unicode example_upper (code_points ''Paid'') = code_points ''PAID''
   \<and> mapBlackCatStatus example_upper (code_points ''Paid'') = ''paid''
   \<and> toUpperCase_unicode example_upper (code_points ''Paid'')
       = toUpperCase_unicode example_upper (code_points ''paid'')
   \<and> mapBlackCatStatus example_upper (code_points ''Paid'')
       = mapBlackCatStatus example_upper (code_points ''paid'')
   \<and> toUpperCase_unicode example_upper (code_points ''bogus'')
       \<notin> {code_points ''PENDING'', code_points ''PAID'', code_points ''CANCELLED'',
          code_points ''REFUNDED''}
   \<and> mapBlackCatStatus example_upper (code_points ''bogus'') = ''pending''
   \<and> example_upper 305 = [73]
   \<and> mapBlackCatStatus example_upper [112, 97, 305, 100] = ''paid''"
  using mapBlackCatStatus_total_case_insensitive
      [of example_upper "code_points ''Paid''" "code_points ''paid''"]
    mapBlackCatStatus_total_case_insensitive
      [of example_upper "code_points ''bogus''" "code_points ''bogus''"]
  by (simp add: toUpperCase_unicode_def upper_code_point_def code_points_examples
      example_upper_def)

section \<open>Properties of the order identifier\<close>

lemma digit36_upper_all: "\<forall>d\<in>set [0..<36]. base36_upper (upper_char (digit36 d))"
  by code_simp

lemma digit36_upper: "d < 36 \<Longrightarrow> base36_upper (upper_char (digit36 d))"
  using digit36_upper_all by simp

lemma toString36_chars: "\<forall>c\<in>set (toUpperCase (toString36 n)). base36_upper c"
proof (induction n rule: toString36.induct)
  case (1 n)
  show ?case
  proof (cases "n < 36")
    case True
    then show ?thesis by (simp add: toString36.simps [of n] toUpperCase_def digit36_upper)
  next
    case False
    then have "\<forall>c\<in>set (toUpperCase (toString36 (n div 36))). base36_upper c"
      using "1" by simp
    moreover have "n mod 36 < 36" by simp
    ultimately show ?thesis using False
      by (simp add: toString36.simps [of n] toUpperCase_def digit36_upper)
  qed
qed

text \<open>\<open>toString36\<close> writes the base-36 numeral of its argument.\<close>

lemma toString36_value:
  "\<exists>ds. toString36 n = map digit36 ds \<and> (\<forall>d\<in>set ds. d < 36)
        \<and> foldl (\<lambda>a d. 36 * a + d) 0 ds = n"
proof (induction n rule: toString36.induct)
  case (1 n)
  show ?case
  proof (cases "n < 36")
    case True
    then have "toString36 n = map digit36 [n] \<and> (\<forall>d\<in>set [n]. d < 36)
        \<and> foldl (\<lambda>a d. 36 * a + d) 0 [n] = n"
      by (simp add: toString36.simps [of n])
    then show ?thesis by blast
  next
    case False
    then obtain ds where ds: "toString36 (n div 36) = map digit36 ds" "\<forall>d\<in>set ds. d < 36"
      "foldl (\<lambda>a d. 36 * a + d) 0 ds = n div 36"
      using "1" by blast
    have "toString36 n = map digit36 (ds @ [n mod 36])"
      using False ds(1) by (simp add: toString36.simps [of n])
    moreover have "\<forall>d\<in>set (ds @ [n mod 36]). d < 36" using ds(2) by simp
    moreover have "foldl (\<lambda>a d. 36 * a + d) 0 (ds @ [n mod 36]) = n"
      using ds(3) by simp
    ultimately show ?thesis by blast
  qed
qed

lemma random_part: "substring (fraction_toString36 rnd) 2 6 = map digit36 (take 4 rnd)"
  by (simp add: substring_def fraction_toString36_def take_map)

lemma toString36_example: "toString36 1730000000000 = ''m2r1bz7k''"
  by (simp add: toString36.simps digit36_def)

text \<open>
  C9, as the claim states it, fails: when \<open>Math.random()\<close> returns \<open>0.5\<close>, which prints
  as \<open>0.i\<close> in base 36, the identifier ends in the single character \<open>I\<close>, not in four
  characters.
\<close>

theorem generateOrderId_short_random:
  "generateOrderId 1730000000000 [18] = ''PED-M2R1BZ7K-I''
   \<and> length (generateOrderId 1730000000000 [18]) \<noteq> length ''PED-M2R1BZ7K-'' + 4"
  by (simp add: generateOrderId_def toString36_example toUpperCase_def upper_char_def
      substring_def fraction_toString36_def digit36_def)

text \<open>
  C9, amended. For every timestamp and every random value (given by the fractional
  base-36 digits of its rendering), the identifier is \<open>PED-\<close>, the upper-cased base-36
  numeral of the timestamp, a hyphen, and the upper-cased first four fractional digits
  of the random value: at most four base-36 characters, and exactly four when the
  rendering has at least four fractional digits.
\<close>

theorem generateOrderId_shape:
  assumes "\<forall>d\<in>set rnd. d < 36"
  shows "generateOrderId now rnd =
      ''PED-'' @ toUpperCase (toString36 now) @ ''-'' @ toUpperCase (map digit36 (take 4 rnd))
   \<and> (\<exists>ds. toString36 now = map digit36 ds \<and> (\<forall>d\<in>set ds. d < 36)
         \<and> foldl (\<lambda>a d. 36 * a + d) 0 ds = now)
   \<and> (\<forall>c\<in>set (toUpperCase (toString36 now)). base36_upper c)
   \<and> (\<forall>c\<in>set (toUpperCase (map digit36 (take 4 rnd))). base36_upper c)
   \<and> length (toUpperCase (map digit36 (take 4 rnd))) = min 4 (length rnd)"
proof -
  have "\<forall>c\<in>set (toUpperCase (map digit36 (take 4 rnd))). base36_upper c"
  proof
    fix c assume "c \<in> set (toUpperCase (map digit36 (take 4 rnd)))"
    then obtain d where d: "d \<in> set (take 4 rnd)" "c = upper_char (digit36 d)"
      by (auto simp: toUpperCase_def)
    have "d < 36" using assms d(1) by (meson in_set_takeD)
    then show "base36_upper c" using d(2) by (simp add: digit36_upper)
  qed
  moreover have "generateOrderId now rnd =
      ''PED-'' @ toUpperCase (toString36 now) @ ''-'' @ toUpperCase (map digit36 (take 4 rnd))"
    by (simp add: generateOrderId_def Let_def random_part)
  moreover have "length (toUpperCase (map digit36 (take 4 rnd))) = min 4 (length rnd)"
    by (simp add: toUpperCase_def min_def)
  ultimately show ?thesis
    using toString36_chars [of now] toString36_value [of now] by blast
qed

theorem generateOrderId_shape_witness:
  "generateOrderId 1730000000000 [1, 2, 35, 10, 5, 6] = ''PED-M2R1BZ7K-12ZA''
   \<and> length (toUpperCase (map digit36 (take 4 [1, 2, 35, 10, 5, 6]))) = 4"
proof -
  have h: "\<forall>d\<in>set [1, 2, 35, 10, 5, 6 :: nat]. d < 36" by simp
  show ?thesis using generateOrderId_shape [OF h, of 1730000000000]
    by (simp add: toString36_example toUpperCase_def upper_char_def digit36_def)
qed

section \<open>Properties of the checkout handler\<close>

lemma POST_create_valid:
  assumes "checked_customer (cb_customer b) = Some cust"
    and "checked_items (cb_items b) = Some its"
    and "checked_total (cb_total b) = Some tot"
  shows "POST_create ev (Some b) w = checkout ev b cust its tot w"
proof -
  have "\<not> total_throws (cb_total b)"
    using assms(3) by (cases "cb_total b" rule: total_throws.cases) simp_all
  then show ?thesis using assms by (simp add: POST_create_def)
qed


lemma save_tracking_calls: "calls (save_tracking orderId tp w) = calls w"
  by (simp add: save_tracking_def split: option.splits)

lemmas example_defs = example_body_def example_customer_def example_address_def example_item_def
  example_tracking_def example_world_def example_env_def example_env_refusing_def
  example_sale_data_def

lemma example_customer_checked:
  "checked_customer (cb_customer example_body) =
     Some (''Ana Lima'', ''ana@example.com'', ''123.456.789-09'', ''(11) 98888-7777'')"
  by (simp add: example_defs)

lemma example_items_checked: "checked_items (cb_items example_body) = Some [example_item]"
  by (simp add: example_body_def)

lemma example_total_checked: "checked_total (cb_total example_body) = Some (Fin (398 / 10))"
  by (simp add: example_body_def)

lemma example_shipping:
  "blackCatShipping
     (fst (''Ana Lima'', ''ana@example.com'', ''123.456.789-09'', ''(11) 98888-7777''))
     (cb_address example_body) =
   Inr \<lparr>sh_name = ''Ana Lima'', sh_street = Some ''Rua das Flores'', sh_number = Some ''10'',
        sh_complement = [], sh_neighborhood = Some ''Centro'', sh_city = Some ''Recife'',
        sh_state = Some ''PE'', sh_zipCode = ''50000000''\<rparr>"
  by (simp add: blackCatShipping_def example_defs digits_only_def is_digit_def)

lemma example_orderId:
  "generateOrderId (date_now example_env) (math_random example_env) = ''PED-M2R1BZ7K-12ZA''"
  by (simp add: example_env_def generateOrderId_def toString36_example toUpperCase_def
      upper_char_def digit36_def substring_def fraction_toString36_def)


lemma checkout_total_coercion_throws:
  assumes "checked_customer (cb_customer b) = Some cust"
    and "checked_items (cb_items b) = Some its"
    and "cb_total b = Some (TotalOther v (Inl e))" and "truthy v"
  shows "POST_create ev (Some b) w = (internal_error, w)"
  using assms by (simp add: POST_create_def)



text \<open>
  C10. A checkout request that passes the three guards and has no address is answered
  with status 500 and the generic internal-error message, not with 400; the log of
  outbound calls is unchanged, so no create-charge call was made.
\<close>

theorem checkout_missing_address_500:
  assumes "checked_customer (cb_customer b) = Some cust"
    and "checked_items (cb_items b) = Some its"
    and "checked_total (cb_total b) = Some tot"
    and "cb_address b = None"
  shows "fst (POST_create ev (Some b) w) =
           Response 500 (ErrorBody ''Erro interno ao processar pagamento'')
     \<and> calls (snd (POST_create ev (Some b) w)) = calls w"
  using assms(4)
  by (simp add: POST_create_valid [OF assms(1-3)] checkout_def Let_def blackCatShipping_def
      internal_error_def save_tracking_calls)

theorem checkout_missing_address_500_witness:
  "fst (POST_create example_env (Some (example_body\<lparr>cb_address := None\<rparr>)) example_world) =
           Response 500 (ErrorBody ''Erro interno ao processar pagamento'')
     \<and> calls (snd (POST_create example_env (Some (example_body\<lparr>cb_address := None\<rparr>)) example_world)) = []"
proof -
  let ?b = "example_body\<lparr>cb_address := None\<rparr>"
  have h1: "checked_customer (cb_customer ?b) =
      Some (''Ana Lima'', ''ana@example.com'', ''123.456.789-09'', ''(11) 98888-7777'')"
    using example_customer_checked by simp
  have h2: "checked_items (cb_items ?b) = Some [example_item]" using example_items_checked by simp
  have h3: "checked_total (cb_total ?b) = Some (Fin (398 / 10))"
    using example_total_checked by simp
  have h4: "cb_address ?b = None" by simp
  show ?thesis using checkout_missing_address_500 [OF h1 h2 h3 h4, where ev = example_env and w = example_world]
    by (simp add: example_world_def)
qed

text \<open>
  C2. Take a checkout request that passes the three guards and carries an address, and
  let \<open>request\<close> be the create-charge request the handler builds for it. If the gateway
  client reports failure for \<open>request\<close> (success flag false, or no data), the handler
  answers with status 500 and the gateway's message, or the generic message when the
  gateway gave none or an empty one; the only outbound call it adds is the gateway call,
  so the attribution client is not invoked.
\<close>

theorem checkout_gateway_failure_500:
  assumes "checked_customer (cb_customer b) = Some cust"
    and "checked_items (cb_items b) = Some its"
    and "checked_total (cb_total b) = Some tot"
    and "blackCatShipping (fst cust) (cb_address b) = Inr ship"
    and "request = blackCatRequest ev (generateOrderId (date_now ev) (math_random ev)) cust its tot
           (cb_shipping b) (cb_trackingParams b) ship"
    and "\<not> rs_success (sale_response_of ev request) \<or> rs_data (sale_response_of ev request) = None"
  shows "fst (POST_create ev (Some b) w) =
           Response 500 (ErrorBody (case rs_message (sale_response_of ev request) of
                                      None \<Rightarrow> ''Erro ao criar pagamento PIX''
                                    | Some m \<Rightarrow> if m = [] then ''Erro ao criar pagamento PIX'' else m))
     \<and> calls (snd (POST_create ev (Some b) w)) = calls w @ [GatewayCall request]"
  using assms(4-6)
  by (auto simp: POST_create_valid [OF assms(1-3)] checkout_def Let_def createBlackCatSale_def
      save_tracking_calls split: option.splits)

theorem checkout_gateway_failure_500_witness:
  "fst (POST_create example_env_refusing (Some example_body) example_world) =
           Response 500 (ErrorBody ''Documento recusado'')
     \<and> length (calls (snd (POST_create example_env_refusing (Some example_body) example_world))) = 1"
proof -
  have h6: "\<not> rs_success (sale_response_of example_env_refusing rq)
      \<or> rs_data (sale_response_of example_env_refusing rq) = None" for rq
    by (simp add: sale_response_of_def example_env_refusing_def)
  have m: "rs_message (sale_response_of example_env_refusing rq) = Some ''Documento recusado''" for rq
    by (simp add: sale_response_of_def example_env_refusing_def)
  show ?thesis
    using checkout_gateway_failure_500 [OF example_customer_checked example_items_checked example_total_checked example_shipping refl h6, where w = example_world]
    by (simp add: m example_world_def)
qed

text \<open>
  C7. Take a checkout request that passes the three guards and carries an address, for
  which the gateway client reports success with data \<open>d\<close>. Whatever the attribution
  client does (resolve or throw) and whatever the date formatter returns, the handler
  answers with status 200 and the order identifier, the transaction id of \<open>d\<close> and the
  PIX artifacts of \<open>d\<close> (the copy-paste string, or the QR string when that is empty).
\<close>

theorem checkout_attribution_failure_isolated:
  assumes "checked_customer (cb_customer b) = Some cust"
    and "checked_items (cb_items b) = Some its"
    and "checked_total (cb_total b) = Some tot"
    and "blackCatShipping (fst cust) (cb_address b) = Inr ship"
    and "request = blackCatRequest ev (generateOrderId (date_now ev) (math_random ev)) cust its tot
           (cb_shipping b) (cb_trackingParams b) ship"
    and "rs_success (sale_response_of ev request)"
    and "rs_data (sale_response_of ev request) = Some d"
  shows "fst (POST_create (ev\<lparr>sendOrderToUtmfy := send, formatUtmfyDate := fmt\<rparr>) (Some b) w) =
           Response 200 (PixBody (generateOrderId (date_now ev) (math_random ev))
              (sd_transactionId d)
              (PixOut (if pd_copyPaste (sd_paymentData d) = [] then pd_qrCode (sd_paymentData d)
                       else pd_copyPaste (sd_paymentData d))
                 (pd_qrCodeBase64 (sd_paymentData d)) (pd_expiresAt (sd_paymentData d))))"
proof -
  let ?ev = "ev\<lparr>sendOrderToUtmfy := send, formatUtmfyDate := fmt\<rparr>"
  have r: "blackCatRequest ?ev (generateOrderId (date_now ev) (math_random ev)) cust its tot
           (cb_shipping b) (cb_trackingParams b) ship = request"
    using assms(5) by (simp add: blackCatRequest_def)
  have s: "sale_response_of ?ev request = sale_response_of ev request"
    by (simp add: sale_response_of_def)
  show ?thesis
    using assms(4,6,7) r s
    by (simp add: POST_create_valid [OF assms(1-3)] checkout_def Let_def createBlackCatSale_def
        send_order_def pix_of_def)
qed

theorem checkout_attribution_failure_isolated_witness:
  "fst (POST_create example_env (Some example_body) example_world) =
     Response 200 (PixBody ''PED-M2R1BZ7K-12ZA'' ''tx-1''
        (PixOut ''000201'' ''cXI='' ''2024-10-28T00:00:00Z''))
   \<and> sendOrderToUtmfy example_env = (\<lambda>order. Thrown)"
proof -
  have h6: "rs_success (sale_response_of example_env rq)" for rq
    by (simp add: sale_response_of_def example_env_def)
  have h7: "rs_data (sale_response_of example_env rq) = Some example_sale_data" for rq
    by (simp add: sale_response_of_def example_env_def)
  have e: "example_env\<lparr>sendOrderToUtmfy := \<lambda>order. Thrown,
      formatUtmfyDate := \<lambda>d. Some ''2024-10-27 03:33:20''\<rparr> = example_env"
    by (simp add: example_env_def)
  show ?thesis
    using checkout_attribution_failure_isolated [OF example_customer_checked example_items_checked example_total_checked example_shipping refl h6 h7,
        where send = "\<lambda>order. Thrown" and fmt = "\<lambda>d. Some ''2024-10-27 03:33:20''"
          and w = example_world]
    by (simp add: e example_orderId example_sale_data_def) (simp add: example_env_def)
qed

section \<open>Properties of the webhook receiver\<close>

lemma send_and_cleanup_calls:
  "calls (send_and_cleanup ev order orderId w) = calls w @ [UtmfyCall order]"
  by (simp add: send_and_cleanup_def send_order_def split: utmfy_outcome.splits)

lemma send_and_cleanup_store:
  "store (send_and_cleanup ev order orderId w) =
     (case sendOrderToUtmfy ev order of
        Resolved r \<Rightarrow> deleteUtmParams orderId (store w)
      | Thrown \<Rightarrow> store w)"
  by (simp add: send_and_cleanup_def send_order_def split: utmfy_outcome.splits)

lemma extract_default:
  "metadata = None \<or> metadata = Some [] \<or> (\<exists>m. metadata = Some m \<and> json_parse ev m = None)
   \<Longrightarrow> extractTrackingParamsFromMetadata ev metadata = defaultParams"
  by (auto simp: extractTrackingParamsFromMetadata_def)

lemma extract_null:
  "json_parse ev m = Some JNull \<Longrightarrow> extractTrackingParamsFromMetadata ev (Some m) = defaultParams"
  by (simp add: extractTrackingParamsFromMetadata_def)

lemma extract_nested:
  "\<lbrakk>m \<noteq> []; json_parse ev m = Some parsed; read_prop parsed ''trackingParams'' = Some t; truthy t\<rbrakk>
   \<Longrightarrow> extractTrackingParamsFromMetadata ev (Some m) = tracking_of (read_prop t)"
  by (cases parsed) (simp_all add: extractTrackingParamsFromMetadata_def)

lemma extract_flat:
  "\<lbrakk>m \<noteq> []; json_parse ev m = Some parsed; parsed \<noteq> JNull;
    \<not> truthy_opt (read_prop parsed ''trackingParams'')\<rbrakk>
   \<Longrightarrow> extractTrackingParamsFromMetadata ev (Some m) = tracking_of (read_prop parsed)"
  by (cases parsed; cases "read_prop parsed ''trackingParams''")
     (simp_all add: extractTrackingParamsFromMetadata_def)

lemma webhook_terminal_calls:
  "wp_event p = ''transaction.paid'' \<Longrightarrow>
     calls (snd (POST_webhook ev (Some p) w)) =
       calls w @ [UtmfyCall (paid_order ev p (resolved_orderId p)
                    (getTrackingParams ev (resolved_orderId p) (wp_metadata p) (store w)))]"
  "wp_event p = ''transaction.failed'' \<Longrightarrow>
     calls (snd (POST_webhook ev (Some p) w)) =
       calls w @ [UtmfyCall (refused_order ev p (resolved_orderId p)
                    (getTrackingParams ev (resolved_orderId p) (wp_metadata p) (store w)))]"
  by (simp_all add: POST_webhook_def Let_def send_and_cleanup_calls)

lemma POST_webhook_envelope:
  "fst (POST_webhook ev (Some p) w) =
      Response 200 (AckBody
        (if wp_event p = ''transaction.created'' then ''Evento recebido''
         else if wp_event p = ''transaction.paid'' then ''Pagamento processado''
         else if wp_event p = ''transaction.failed'' then ''Falha processada''
         else if startsWith (wp_event p) ''withdrawal.'' then ''Evento de saque recebido''
         else ''Evento recebido''))"
  by (simp add: POST_webhook_def Let_def ack_def)

text \<open>
  C1, as the claim states it, fails: the body \<open>{}\<close> parses, its \<open>event\<close> member is
  missing, and the answer is 500.
\<close>

theorem webhook_missing_event_500:
  "fst (POST_webhook_request example_env (NoStringEvent EventMissing) example_world) =
     Response 500 (ErrorBody ''Erro ao processar webhook'')
   \<and> NoStringEvent EventMissing \<noteq> BodyRejected"
  by (simp add: POST_webhook_request_def)

text \<open>
  C1, amended. A request whose body is an event envelope (a value other than \<open>null\<close>
  whose \<open>event\<close> member is a string) is answered with status 200 and the acknowledgment
  \<open>{success: true, message}\<close>, whatever the event type: created, paid, failed, a
  withdrawal event or any other. Every other request is answered with status 500 and
  leaves the world as it was: a body that fails to parse, the body \<open>null\<close>, and a body
  whose \<open>event\<close> member is missing or is not a string.
\<close>

theorem webhook_always_acknowledges:
  "(\<exists>m. fst (POST_webhook_request ev (Envelope p) w) = Response 200 (AckBody m))
   \<and> fst (POST_webhook_request ev (Envelope p) w) =
       Response 200 (AckBody
         (if wp_event p = ''transaction.created'' then ''Evento recebido''
          else if wp_event p = ''transaction.paid'' then ''Pagamento processado''
          else if wp_event p = ''transaction.failed'' then ''Falha processada''
          else if startsWith (wp_event p) ''withdrawal.'' then ''Evento de saque recebido''
          else ''Evento recebido''))
   \<and> POST_webhook_request ev BodyRejected w =
       (Response 500 (ErrorBody ''Erro ao processar webhook''), w)
   \<and> POST_webhook_request ev NullBody w =
       (Response 500 (ErrorBody ''Erro ao processar webhook''), w)
   \<and> POST_webhook_request ev (NoStringEvent v) w =
       (Response 500 (ErrorBody ''Erro ao processar webhook''), w)
   \<and> (status (fst (POST_webhook_request ev request w)) = 200) = (\<exists>q. request = Envelope q)
   \<and> (status (fst (POST_webhook_request ev request w)) = 500) =
       (request = BodyRejected \<or> request = NullBody \<or> (\<exists>u. request = NoStringEvent u))"
proof -
  have a: "fst (POST_webhook_request ev (Envelope q) w) =
      Response 200 (AckBody
        (if wp_event q = ''transaction.created'' then ''Evento recebido''
         else if wp_event q = ''transaction.paid'' then ''Pagamento processado''
         else if wp_event q = ''transaction.failed'' then ''Falha processada''
         else if startsWith (wp_event q) ''withdrawal.'' then ''Evento de saque recebido''
         else ''Evento recebido''))" for q
    by (simp add: POST_webhook_request_def POST_webhook_envelope)
  have b: "POST_webhook_request ev BodyRejected w =
       (Response 500 (ErrorBody ''Erro ao processar webhook''), w)"
    "POST_webhook_request ev NullBody w =
       (Response 500 (ErrorBody ''Erro ao processar webhook''), w)"
    "POST_webhook_request ev (NoStringEvent u) w =
       (Response 500 (ErrorBody ''Erro ao processar webhook''), w)" for u
    by (simp_all add: POST_webhook_request_def POST_webhook_def)
  have c: "(status (fst (POST_webhook_request ev request w)) = 200) = (\<exists>q. request = Envelope q)"
    by (cases request) (simp_all add: a b)
  have d: "(status (fst (POST_webhook_request ev request w)) = 500) =
       (request = BodyRejected \<or> request = NullBody \<or> (\<exists>u. request = NoStringEvent u))"
    by (cases request) (simp_all add: a b)
  show ?thesis using a [of p] b c d by simp
qed

text \<open>
  C4. When the store has no entry for the resolved order identifier, the tracking
  parameters are those extracted from the metadata string, and the attribution event of
  a paid or failed event carries them unchanged. The extraction gives the all-null
  block of seven fields when the metadata is absent, empty or does not parse; otherwise
  it reads the seven fields from the nested \<open>trackingParams\<close> member when that is
  present (and truthy), and from the parsed value itself (the flat shape) when not. A
  field that is present with a truthy value is taken as it is, every other field is
  \<open>null\<close>.
\<close>

theorem webhook_tracking_from_metadata:
  assumes "getUtmParams (resolved_orderId p) (store w) = None"
  shows "getTrackingParams ev (resolved_orderId p) (wp_metadata p) (store w) =
           extractTrackingParamsFromMetadata ev (wp_metadata p)
     \<and> (wp_event p = ''transaction.paid'' \<longrightarrow>
           (\<exists>order. calls (snd (POST_webhook ev (Some p) w)) = calls w @ [UtmfyCall order]
              \<and> uo_status order = ''paid''
              \<and> uo_trackingParameters order = extractTrackingParamsFromMetadata ev (wp_metadata p)))
     \<and> (wp_event p = ''transaction.failed'' \<longrightarrow>
           (\<exists>order. calls (snd (POST_webhook ev (Some p) w)) = calls w @ [UtmfyCall order]
              \<and> uo_status order = ''refused''
              \<and> uo_trackingParameters order = extractTrackingParamsFromMetadata ev (wp_metadata p)))
     \<and> (wp_metadata p = None \<or> wp_metadata p = Some []
          \<or> (\<exists>m. wp_metadata p = Some m \<and> json_parse ev m = None)
         \<longrightarrow> extractTrackingParamsFromMetadata ev (wp_metadata p) = defaultParams)
     \<and> (\<forall>m parsed t. wp_metadata p = Some m \<and> m \<noteq> [] \<and> json_parse ev m = Some parsed
            \<and> read_prop parsed ''trackingParams'' = Some t \<and> truthy t
         \<longrightarrow> extractTrackingParamsFromMetadata ev (wp_metadata p) = tracking_of (read_prop t))
     \<and> (\<forall>m parsed. wp_metadata p = Some m \<and> m \<noteq> [] \<and> json_parse ev m = Some parsed
            \<and> parsed \<noteq> JNull \<and> \<not> truthy_opt (read_prop parsed ''trackingParams'')
         \<longrightarrow> extractTrackingParamsFromMetadata ev (wp_metadata p) = tracking_of (read_prop parsed))
     \<and> (\<forall>get. tracking_of get =
           \<lparr>src = or_null (get ''src''), sck = or_null (get ''sck''),
            utm_source = or_null (get ''utm_source''),
            utm_campaign = or_null (get ''utm_campaign''),
            utm_medium = or_null (get ''utm_medium''),
            utm_content = or_null (get ''utm_content''),
            utm_term = or_null (get ''utm_term'')\<rparr>)
     \<and> (\<forall>v. truthy v \<longrightarrow> or_null (Some v) = v)
     \<and> defaultParams =
           \<lparr>src = JNull, sck = JNull, utm_source = JNull, utm_campaign = JNull,
            utm_medium = JNull, utm_content = JNull, utm_term = JNull\<rparr>"
proof -
  have a: "getTrackingParams ev (resolved_orderId p) (wp_metadata p) (store w) =
           extractTrackingParamsFromMetadata ev (wp_metadata p)"
    using assms by (simp add: getTrackingParams_def)
  have b: "wp_event p = ''transaction.paid'' \<longrightarrow>
           (\<exists>order. calls (snd (POST_webhook ev (Some p) w)) = calls w @ [UtmfyCall order]
              \<and> uo_status order = ''paid''
              \<and> uo_trackingParameters order = extractTrackingParamsFromMetadata ev (wp_metadata p))"
    using webhook_terminal_calls(1) [of p ev w] by (auto simp: a paid_order_def)
  have c: "wp_event p = ''transaction.failed'' \<longrightarrow>
           (\<exists>order. calls (snd (POST_webhook ev (Some p) w)) = calls w @ [UtmfyCall order]
              \<and> uo_status order = ''refused''
              \<and> uo_trackingParameters order = extractTrackingParamsFromMetadata ev (wp_metadata p))"
    using webhook_terminal_calls(2) [of p ev w] by (auto simp: a refused_order_def)
  have d: "wp_metadata p = None \<or> wp_metadata p = Some []
          \<or> (\<exists>m. wp_metadata p = Some m \<and> json_parse ev m = None)
         \<longrightarrow> extractTrackingParamsFromMetadata ev (wp_metadata p) = defaultParams"
    using extract_default [of "wp_metadata p" ev] by blast
  have e: "\<forall>m parsed t. wp_metadata p = Some m \<and> m \<noteq> [] \<and> json_parse ev m = Some parsed
            \<and> read_prop parsed ''trackingParams'' = Some t \<and> truthy t
         \<longrightarrow> extractTrackingParamsFromMetadata ev (wp_metadata p) = tracking_of (read_prop t)"
    using extract_nested [of _ ev] by simp
  have f: "\<forall>m parsed. wp_metadata p = Some m \<and> m \<noteq> [] \<and> json_parse ev m = Some parsed
            \<and> parsed \<noteq> JNull \<and> \<not> truthy_opt (read_prop parsed ''trackingParams'')
         \<longrightarrow> extractTrackingParamsFromMetadata ev (wp_metadata p) = tracking_of (read_prop parsed)"
    using extract_flat [of _ ev] by simp
  show ?thesis using a b c d e f by (simp add: tracking_of_def defaultParams_def)
qed

lemmas webhook_example_defs = example_paid_event_def example_env_webhook_def example_env_def
  example_world_def example_world_saved_def

lemma example_resolved: "resolved_orderId example_paid_event = ''PED-M2R1BZ7K-12ZA''"
  by (simp add: resolved_orderId_def example_paid_event_def)

lemma example_metadata_nonempty: "example_metadata \<noteq> []"
  by (simp add: example_metadata_def)

theorem webhook_tracking_from_metadata_witness:
  "getTrackingParams example_env_webhook (resolved_orderId example_paid_event)
     (wp_metadata example_paid_event) (store example_world) =
   \<lparr>src = JNull, sck = JNull, utm_source = JStr ''fb'', utm_campaign = JNull,
    utm_medium = JNull, utm_content = JNull, utm_term = JNull\<rparr>
   \<and> (\<exists>order. calls (snd (POST_webhook example_env_webhook (Some example_paid_event) example_world))
          = [UtmfyCall order]
        \<and> utm_source (uo_trackingParameters order) = JStr ''fb'')"
proof -
  have h: "getUtmParams (resolved_orderId example_paid_event) (store example_world) = None"
    by (simp add: getUtmParams_def example_world_def)
  have e: "wp_event example_paid_event = ''transaction.paid''"
    by (simp add: example_paid_event_def)
  have x: "extractTrackingParamsFromMetadata example_env_webhook (wp_metadata example_paid_event) =
      \<lparr>src = JNull, sck = JNull, utm_source = JStr ''fb'', utm_campaign = JNull,
       utm_medium = JNull, utm_content = JNull, utm_term = JNull\<rparr>"
    by (simp add: extractTrackingParamsFromMetadata_def example_paid_event_def
        example_env_webhook_def example_metadata_nonempty tracking_of_def)
  have c: "calls example_world = []" by (simp add: example_world_def)
  note T = webhook_tracking_from_metadata [OF h, where ev = example_env_webhook]
  have a: "getTrackingParams example_env_webhook (resolved_orderId example_paid_event)
     (wp_metadata example_paid_event) (store example_world) =
     extractTrackingParamsFromMetadata example_env_webhook (wp_metadata example_paid_event)"
    using T by (rule conjunct1)
  have b: "\<exists>order. calls (snd (POST_webhook example_env_webhook (Some example_paid_event)
         example_world)) = calls example_world @ [UtmfyCall order]
       \<and> uo_status order = ''paid''
       \<and> uo_trackingParameters order =
          extractTrackingParamsFromMetadata example_env_webhook (wp_metadata example_paid_event)"
    using T [THEN conjunct2, THEN conjunct1] e by (rule mp)
  then obtain order where
    "calls (snd (POST_webhook example_env_webhook (Some example_paid_event) example_world))
       = [UtmfyCall order]"
    "utm_source (uo_trackingParameters order) = JStr ''fb''"
    by (auto simp: x c)
  then show ?thesis using a by (simp add: x)
qed

text \<open>
  C6. For an event of type \<open>transaction.paid\<close> the receiver makes exactly one outbound
  call, to the attribution client, with an order of status \<open>paid\<close> for the resolved
  order identifier, whose \<open>approvedDate\<close> is the formatted \<open>paidAt\<close> of the event, or the
  formatted current time when \<open>paidAt\<close> is absent or empty. When that call does not
  throw, the store entry of the order identifier is deleted: a \<open>get\<close> on it afterwards
  returns absent.
\<close>

theorem webhook_paid_sends_and_cleans:
  assumes "wp_event p = ''transaction.paid''"
  shows "\<exists>order. calls (snd (POST_webhook ev (Some p) w)) = calls w @ [UtmfyCall order]
      \<and> uo_status order = ''paid''
      \<and> uo_orderId order = resolved_orderId p
      \<and> uo_approvedDate order =
            Some (or_str (formatUtmfyDate ev
                    (case wp_paidAt p of
                       None \<Rightarrow> DateObject (date_now ev)
                     | Some s \<Rightarrow> if s = [] then DateObject (date_now ev) else DateString s)) [])
      \<and> (sendOrderToUtmfy ev order \<noteq> Thrown \<longrightarrow>
            getUtmParams (resolved_orderId p) (store (snd (POST_webhook ev (Some p) w))) = None)"
proof -
  let ?order = "paid_order ev p (resolved_orderId p)
      (getTrackingParams ev (resolved_orderId p) (wp_metadata p) (store w))"
  have w': "snd (POST_webhook ev (Some p) w) = send_and_cleanup ev ?order (resolved_orderId p) w"
    using assms by (simp add: POST_webhook_def Let_def)
  have "calls (snd (POST_webhook ev (Some p) w)) = calls w @ [UtmfyCall ?order]"
    by (simp add: w' send_and_cleanup_calls)
  moreover have "uo_status ?order = ''paid''" "uo_orderId ?order = resolved_orderId p"
    by (simp_all add: paid_order_def)
  moreover have "uo_approvedDate ?order =
            Some (or_str (formatUtmfyDate ev
                    (case wp_paidAt p of
                       None \<Rightarrow> DateObject (date_now ev)
                     | Some s \<Rightarrow> if s = [] then DateObject (date_now ev) else DateString s)) [])"
    by (simp add: paid_order_def paid_date_def)
  moreover have "sendOrderToUtmfy ev ?order \<noteq> Thrown \<longrightarrow>
            getUtmParams (resolved_orderId p) (store (snd (POST_webhook ev (Some p) w))) = None"
    by (simp add: w' send_and_cleanup_store getUtmParams_def deleteUtmParams_def
        split: utmfy_outcome.splits)
  ultimately show ?thesis by blast
qed

theorem webhook_paid_sends_and_cleans_witness:
  "getUtmParams ''PED-M2R1BZ7K-12ZA'' (store example_world_saved) = Some defaultParams
   \<and> getUtmParams ''PED-M2R1BZ7K-12ZA''
        (store (snd (POST_webhook example_env_webhook (Some example_paid_event)
                       example_world_saved))) = None
   \<and> (\<exists>order. calls (snd (POST_webhook example_env_webhook (Some example_paid_event)
                       example_world_saved)) = [UtmfyCall order]
        \<and> uo_status order = ''paid''
        \<and> uo_approvedDate order = Some ''2024-10-27 03:33:20'')"
proof -
  have e: "wp_event example_paid_event = ''transaction.paid''"
    by (simp add: example_paid_event_def)
  have s: "sendOrderToUtmfy example_env_webhook order \<noteq> Thrown" for order
    by (simp add: example_env_webhook_def)
  have f: "formatUtmfyDate example_env_webhook d = Some ''2024-10-27 03:33:20''" for d
    by (simp add: example_env_webhook_def example_env_def)
  have g: "getUtmParams ''PED-M2R1BZ7K-12ZA'' (store example_world_saved) = Some defaultParams"
    by (simp add: example_world_saved_def getUtmParams_def saveUtmParams_def)
  have c: "calls example_world_saved = []" by (simp add: example_world_saved_def)
  show ?thesis
    using webhook_paid_sends_and_cleans [OF e, of example_env_webhook example_world_saved]
    by (auto simp: s f g c example_resolved)
qed

end
